theory Spec2Isabelle
  imports Main
begin

section \<open>The Relax NG syntax tree (rngast.ts) and its builders (relaxng-builder.ts)\<close>

text \<open>
  A node of the syntax tree is a JavaScript object with a \<^verbatim>\<open>type\<close> tag, for some kinds a
  \<^verbatim>\<open>name\<close>, for \<^verbatim>\<open>start\<close> and \<^verbatim>\<open>define\<close> an optional \<^verbatim>\<open>combine\<close>, and for the parent kinds
  an array \<^verbatim>\<open>children\<close>. The TypeScript interfaces are erased when the program runs: all
  dispatch is on the tag. The model therefore keeps one node shape with a tag of type
  \<open>kind\<close>. The string field holds \<^verbatim>\<open>name\<close> (for \<^verbatim>\<open>value\<close> nodes the \<^verbatim>\<open>value\<close>, for \<^verbatim>\<open>data\<close>
  nodes the \<^verbatim>\<open>dataType\<close>); it is the empty string for the kinds without such a property,
  which no function below reads. A node without a \<^verbatim>\<open>children\<close> property has no children.
\<close>

datatype kind =
    K_root | K_grammar | K_start | K_define
  | K_elementNamed | K_element | K_attributeNamed | K_attribute
  | K_group | K_interleave | K_choice | K_optional | K_zeroOrMore | K_oneOrMore | K_mixed
  | K_ref | K_parentRef | K_empty | K_text | K_value | K_data | K_notAllowed
  | K_name | K_anyName | K_nameChoice | K_exceptNameClass

datatype combine_method = Choice | Interleave

datatype rng = Node (ntype: kind) (nname: string) (ncombine: "combine_method option")
  (nchildren: "rng list")

fun type_name :: "kind \<Rightarrow> string" where
  "type_name K_root = ''root''"
| "type_name K_grammar = ''grammar''"
| "type_name K_start = ''start''"
| "type_name K_define = ''define''"
| "type_name K_elementNamed = ''elementNamed''"
| "type_name K_element = ''element''"
| "type_name K_attributeNamed = ''attributeNamed''"
| "type_name K_attribute = ''attribute''"
| "type_name K_group = ''group''"
| "type_name K_interleave = ''interleave''"
| "type_name K_choice = ''choice''"
| "type_name K_optional = ''optional''"
| "type_name K_zeroOrMore = ''zeroOrMore''"
| "type_name K_oneOrMore = ''oneOrMore''"
| "type_name K_mixed = ''mixed''"
| "type_name K_ref = ''ref''"
| "type_name K_parentRef = ''parentRef''"
| "type_name K_empty = ''empty''"
| "type_name K_text = ''text''"
| "type_name K_value = ''value''"
| "type_name K_data = ''data''"
| "type_name K_notAllowed = ''notAllowed''"
| "type_name K_name = ''name''"
| "type_name K_anyName = ''anyName''"
| "type_name K_nameChoice = ''nameChoice''"
| "type_name K_exceptNameClass = ''exceptNameClass''"

text \<open>
  The builders, imported by the other modules as \<^verbatim>\<open>r\<close>: \<open>r_elemNamed\<close> is \<^verbatim>\<open>r.elemNamed\<close>.
  A rest parameter is a list; the default parameter of \<^verbatim>\<open>attrNamed\<close> and \<^verbatim>\<open>attr\<close> is an
  option.
\<close>

definition r_empty :: rng where
  "r_empty = Node K_empty [] None []"

definition r_text :: rng where
  "r_text = Node K_text [] None []"

definition r_value :: "string \<Rightarrow> rng" where
  "r_value v = Node K_value v None []"

definition r_elemNamed :: "string \<Rightarrow> rng list \<Rightarrow> rng" where
  "r_elemNamed elemName cs =
     Node K_elementNamed elemName None (if length cs = 0 then [r_empty] else cs)"

definition r_elem :: "rng \<Rightarrow> rng list \<Rightarrow> rng" where
  "r_elem elemNameClass cs =
     Node K_element [] None (elemNameClass # (if length cs = 0 then [r_empty] else cs))"

definition r_attrNamed :: "string \<Rightarrow> rng option \<Rightarrow> rng" where
  "r_attrNamed attrName child =
     Node K_attributeNamed attrName None [case child of None \<Rightarrow> r_text | Some c \<Rightarrow> c]"

definition r_attr :: "rng \<Rightarrow> rng option \<Rightarrow> rng" where
  "r_attr nameClass child =
     Node K_attribute [] None [nameClass, case child of None \<Rightarrow> r_text | Some c \<Rightarrow> c]"

definition r_grammar :: "rng \<Rightarrow> rng list \<Rightarrow> rng" where
  "r_grammar st defs = Node K_grammar [] None (st # defs)"

definition r_start :: "rng \<Rightarrow> rng" where
  "r_start child = Node K_start [] None [child]"

definition r_define :: "string \<Rightarrow> rng list \<Rightarrow> rng" where
  "r_define n cs = Node K_define n None cs"

definition r_choice :: "rng list \<Rightarrow> rng" where
  "r_choice cs = Node K_choice [] None cs"

definition r_group :: "rng list \<Rightarrow> rng" where
  "r_group cs = Node K_group [] None cs"

definition r_oneOrMore :: "rng list \<Rightarrow> rng" where
  "r_oneOrMore cs = Node K_oneOrMore [] None cs"

definition r_zeroOrMore :: "rng list \<Rightarrow> rng" where
  "r_zeroOrMore cs = Node K_zeroOrMore [] None cs"

definition r_interleave :: "rng list \<Rightarrow> rng" where
  "r_interleave cs = Node K_interleave [] None cs"

definition r_mixed :: "rng list \<Rightarrow> rng" where
  "r_mixed cs = Node K_mixed [] None cs"

definition r_ref :: "string \<Rightarrow> rng" where
  "r_ref n = Node K_ref n None []"

definition r_optional :: "rng list \<Rightarrow> rng" where
  "r_optional cs = Node K_optional [] None cs"

definition r_name :: "string \<Rightarrow> rng" where
  "r_name n = Node K_name n None []"

definition r_notAllowed :: rng where
  "r_notAllowed = Node K_notAllowed [] None []"

definition r_root :: "rng \<Rightarrow> rng" where
  "r_root p = Node K_root [] None [p]"

lemmas builder_defs =
  r_empty_def r_text_def r_value_def r_elemNamed_def r_elem_def r_attrNamed_def r_attr_def
  r_grammar_def r_start_def r_define_def r_choice_def r_group_def r_oneOrMore_def
  r_zeroOrMore_def r_interleave_def r_mixed_def r_ref_def r_optional_def r_name_def
  r_notAllowed_def r_root_def


section \<open>The XML document and the validator's results (rngast-validate.ts)\<close>

text \<open>
  The document is an xast tree. The validator never changes its shape; it only appends to
  \<^verbatim>\<open>node.data.validation\<close>. A node is a JavaScript object, so the same node reached through
  two contexts carries one list of problems: every node has an address (its first
  argument), and the annotations live in a store from addresses to lists of problems. The
  value \<open>None\<close> of the store is a node whose \<^verbatim>\<open>data.validation\<close> is absent.

  An attribute value is a string, \<^verbatim>\<open>null\<close> or \<^verbatim>\<open>undefined\<close>; the attributes of an element are
  its own properties in insertion order, an association list with distinct keys.
  (Properties inherited from \<^verbatim>\<open>Object.prototype\<close>, which \<^verbatim>\<open>in\<close> would also find, are outside
  the model.)
\<close>

datatype attrval = AString string | ANull | AUndefined

datatype xkind = Comment | Instruction | Cdata | Doctype

datatype xnode =
    XElement nat string "(string \<times> attrval) list" "xnode list"
  | XText nat string
  | XRoot nat "xnode list"
  | XOther nat xkind

fun xid :: "xnode \<Rightarrow> nat" where
  "xid (XElement a _ _ _) = a"
| "xid (XText a _) = a"
| "xid (XRoot a _) = a"
| "xid (XOther a _) = a"

fun xtype :: "xnode \<Rightarrow> string" where
  "xtype (XElement _ _ _ _) = ''element''"
| "xtype (XText _ _) = ''text''"
| "xtype (XRoot _ _) = ''root''"
| "xtype (XOther _ Comment) = ''comment''"
| "xtype (XOther _ Instruction) = ''instruction''"
| "xtype (XOther _ Cdata) = ''cdata''"
| "xtype (XOther _ Doctype) = ''doctype''"

fun typeof_attr :: "attrval \<Rightarrow> string" where
  "typeof_attr (AString _) = ''string''"
| "typeof_attr ANull = ''object''"
| "typeof_attr AUndefined = ''undefined''"

datatype error = Error string | TypeError

type_synonym problem = string
type_synonym vstore = "nat \<Rightarrow> problem list option"
type_synonym "context" = "xnode list \<times> (string \<times> attrval) list"
type_synonym vresult = "bool \<times> problem list \<times> context"

text \<open>
  A computation of the validator reads and extends the store, and either returns a value,
  throws (\<open>Inl\<close>), or does not return at all (\<open>None\<close>).
\<close>

type_synonym 'a eff = "vstore \<Rightarrow> (error + 'a \<times> vstore) option"

subsection \<open>Numbers in template literals\<close>

definition digit_char :: "nat \<Rightarrow> char" where
  "digit_char d = ''0123456789'' ! d"

fun string_of_nat :: "nat \<Rightarrow> string" where
  "string_of_nat n =
     (if n < 10 then [digit_char n] else string_of_nat (n div 10) @ [digit_char (n mod 10)])"

declare string_of_nat.simps [simp del]

subsection \<open>The message catalogue \<^verbatim>\<open>expected\<close>\<close>

definition expected_text :: "string \<Rightarrow> problem" where
  "expected_text found = ''Expected text but found '' @ found"

definition expected_noText :: problem where
  "expected_noText = ''Unexpected text in element''"

definition expected_elem :: "string \<Rightarrow> string \<Rightarrow> problem" where
  "expected_elem n found = ''Expected element '' @ n @ '' but found '' @ found"

definition expected_attr :: "string \<Rightarrow> problem" where
  "expected_attr n = ''Expected attribute: '' @ n"

definition expected_attrText :: "string \<Rightarrow> string \<Rightarrow> problem" where
  "expected_attrText n found =
     ''Expected attribute value for '' @ n @ '' to be text but was '' @ found"

definition expected_noChildren :: "nat \<Rightarrow> problem" where
  "expected_noChildren numMissed =
     ''Expected no contents but found '' @ string_of_nat numMissed @ '' children''"

definition expected_unexpectedElem :: "string \<Rightarrow> problem" where
  "expected_unexpectedElem n = ''Unexpected element: '' @ n"

definition expected_noMatch :: problem where
  "expected_noMatch = ''Could not find matching choice''"

subsection \<open>Annotations\<close>

definition addProblems :: "xnode \<Rightarrow> problem list \<Rightarrow> vstore \<Rightarrow> vstore" where
  "addProblems target problems st =
     st(xid target := Some ((case st (xid target) of None \<Rightarrow> [] | Some ps \<Rightarrow> ps) @ problems))"

definition unexpected :: "context \<Rightarrow> problem list" where
  "unexpected ctx =
     map (\<lambda>k. ''Unexpected attribute: '' @ k) (map fst (snd ctx)) @
     filter (\<lambda>p. p \<noteq> [])
       (map (\<lambda>ch. case ch of
                XElement _ n _ _ \<Rightarrow> expected_unexpectedElem n
              | XText _ _ \<Rightarrow> expected_noText
              | _ \<Rightarrow> [])
         (fst ctx))"

definition endValidationOnNode :: "xnode \<Rightarrow> vresult \<Rightarrow> vstore \<Rightarrow> vstore" where
  "endValidationOnNode el result st =
     (let innerProbs1 = fst (snd result);
          innerProbs2 = unexpected (snd (snd result))
      in addProblems el innerProbs2 (addProblems el innerProbs1 st))"

definition allGood :: "context \<Rightarrow> vresult" where
  "allGood ctx = (True, [], ctx)"

definition invalid :: "context \<Rightarrow> problem \<Rightarrow> vresult" where
  "invalid ctx p = (False, [p], ctx)"

definition elemCtx :: "xnode \<Rightarrow> context" where
  "elemCtx el = (case el of XElement _ _ attrs cs \<Rightarrow> (cs, attrs) | _ \<Rightarrow> ([], []))"

definition concat2 :: "vresult \<Rightarrow> vresult \<Rightarrow> vresult" where
  "concat2 result1 result2 =
     (fst result1 \<and> fst result2, fst (snd result1) @ fst (snd result2), snd (snd result2))"

fun collectProblems :: "vstore \<Rightarrow> bool \<Rightarrow> xnode \<Rightarrow> (xnode \<times> problem) list" where
  "collectProblems st recursive (XElement a n attrs cs) =
     map (\<lambda>p. (XElement a n attrs cs, p)) (case st a of None \<Rightarrow> [] | Some ps \<Rightarrow> ps) @
     (if recursive then concat (map (collectProblems st recursive) cs) else [])"
| "collectProblems st recursive (XRoot a cs) =
     map (\<lambda>p. (XRoot a cs, p)) (case st a of None \<Rightarrow> [] | Some ps \<Rightarrow> ps) @
     (if recursive then concat (map (collectProblems st recursive) cs) else [])"
| "collectProblems st recursive (XText a v) =
     map (\<lambda>p. (XText a v, p)) (case st a of None \<Rightarrow> [] | Some ps \<Rightarrow> ps)"
| "collectProblems st recursive (XOther a k) =
     map (\<lambda>p. (XOther a k, p)) (case st a of None \<Rightarrow> [] | Some ps \<Rightarrow> ps)"

subsection \<open>Sequencing, \<^verbatim>\<open>fallback\<close>, \<^verbatim>\<open>chain\<close> and \<^verbatim>\<open>chainIfOk\<close>\<close>

definition ret :: "'a \<Rightarrow> 'a eff" where
  "ret a st = Some (Inr (a, st))"

definition throw :: "error \<Rightarrow> 'a eff" where
  "throw e st = Some (Inl e)"

definition bind_eff :: "'a eff \<Rightarrow> ('a \<Rightarrow> 'b eff) \<Rightarrow> 'b eff" where
  "bind_eff m k st =
     Option.bind (m st) (\<lambda>out. case out of Inl e \<Rightarrow> Some (Inl e) | Inr (a, st') \<Rightarrow> k a st')"

text \<open>
  \<^verbatim>\<open>fallback(...options)\<close>: the loop over the options, with the local \<^verbatim>\<open>result\<close> as first
  argument (\<open>None\<close> is \<^verbatim>\<open>undefined\<close>).
\<close>

fun fallback_from :: "vresult option \<Rightarrow> vresult eff list \<Rightarrow> vresult eff" where
  "fallback_from result [] st =
     (case result of
        None \<Rightarrow> Some (Inl (Error ''Fallback should have at least one case''))
      | Some r \<Rightarrow> Some (Inr (r, st)))"
| "fallback_from result (opt # opts) st =
     Option.bind (opt st) (\<lambda>out. case out of
        Inl e \<Rightarrow> Some (Inl e)
      | Inr (r, st') \<Rightarrow> if fst r then Some (Inr (r, st')) else fallback_from (Some r) opts st')"

definition fallback :: "vresult eff list \<Rightarrow> vresult eff" where
  "fallback options = fallback_from None options"

text \<open>
  \<^verbatim>\<open>chain(initialCtx, ...steps)\<close> and \<^verbatim>\<open>chainIfOk\<close>: the loop over the steps, with the locals
  \<^verbatim>\<open>result\<close> and \<^verbatim>\<open>ctx\<close>. With no step at all the source returns \<^verbatim>\<open>undefined\<close>, which every
  caller destructures at once: a TypeError. (Every call in the source passes two steps.)
\<close>

fun chain_from :: "vresult option \<Rightarrow> context \<Rightarrow> (context \<Rightarrow> vresult eff) list \<Rightarrow> vresult eff"
  where
  "chain_from result ctx [] st =
     (case result of None \<Rightarrow> Some (Inl TypeError) | Some r \<Rightarrow> Some (Inr (r, st)))"
| "chain_from result ctx (step # steps) st =
     Option.bind (step ctx st) (\<lambda>out. case out of
        Inl e \<Rightarrow> Some (Inl e)
      | Inr (r2, st') \<Rightarrow>
          (let r = (case result of None \<Rightarrow> r2 | Some r1 \<Rightarrow> concat2 r1 r2)
           in chain_from (Some r) (snd (snd r)) steps st'))"

definition chain :: "context \<Rightarrow> (context \<Rightarrow> vresult eff) list \<Rightarrow> vresult eff" where
  "chain initialCtx steps = chain_from None initialCtx steps"

fun chainIfOk_from ::
  "vresult option \<Rightarrow> context \<Rightarrow> (context \<Rightarrow> vresult eff) list \<Rightarrow> vresult eff" where
  "chainIfOk_from result ctx [] st =
     (case result of None \<Rightarrow> Some (Inl TypeError) | Some r \<Rightarrow> Some (Inr (r, st)))"
| "chainIfOk_from result ctx (step # steps) st =
     Option.bind (step ctx st) (\<lambda>out. case out of
        Inl e \<Rightarrow> Some (Inl e)
      | Inr (r2, st') \<Rightarrow>
          (let r = (case result of None \<Rightarrow> r2 | Some r1 \<Rightarrow> concat2 r1 r2)
           in if \<not> fst r then Some (Inr (r, st'))
              else chainIfOk_from (Some r) (snd (snd r)) steps st'))"

definition chainIfOk :: "context \<Rightarrow> (context \<Rightarrow> vresult eff) list \<Rightarrow> vresult eff" where
  "chainIfOk initialCtx steps = chainIfOk_from None initialCtx steps"

text \<open>
  Monotonicity of the combinators in the function they call back, for the definition of
  the recursive matcher below.
\<close>

lemma sum_case_mono:
  assumes "\<And>a st'. mono_option (\<lambda>f. K f a st')"
  shows "mono_option (\<lambda>f. case out of Inl e \<Rightarrow> Some (Inl e) | Inr (a, st') \<Rightarrow> K f a st')"
proof (cases out)
  case (Inl e)
  then show ?thesis by (simp add: option.const_mono)
next
  case (Inr p)
  obtain a st' where "p = (a, st')" by (cases p)
  with Inr show ?thesis by (simp add: assms)
qed

lemma bind_eff_mono [partial_function_mono]:
  assumes "mono_option (\<lambda>f. M f st)"
    and "\<And>a st'. mono_option (\<lambda>f. K f a st')"
  shows "mono_option (\<lambda>f. bind_eff (M f) (K f) st)"
  unfolding bind_eff_def
  by (rule bind_mono [OF assms(1)]) (rule sum_case_mono [OF assms(2)])

lemma fallback_from_mono [partial_function_mono]:
  assumes "\<And>st. mono_option (\<lambda>f. A f st)"
    and "\<And>result st. mono_option (\<lambda>f. fallback_from result (As f) st)"
  shows "mono_option (\<lambda>f. fallback_from result (A f # As f) st)"
  unfolding fallback_from.simps
  by (rule bind_mono [OF assms(1)]) (rule sum_case_mono, rule if_mono, rule option.const_mono, rule assms(2))

lemma fallback_mono [partial_function_mono]:
  assumes "\<And>result st. mono_option (\<lambda>f. fallback_from result (As f) st)"
  shows "mono_option (\<lambda>f. fallback (As f) st)"
  unfolding fallback_def by (rule assms)

lemma fallback_from_map_mono [partial_function_mono]:
  assumes "\<And>ch st. mono_option (\<lambda>f. P f ch st)"
    and "\<And>result st. mono_option (\<lambda>f. fallback_from result (As f) st)"
  shows "mono_option (\<lambda>f. fallback_from result (map (P f) chs @ As f) st)"
proof (induction chs arbitrary: result st)
  case Nil
  show ?case by (simp add: assms(2))
next
  case (Cons ch chs)
  show ?case using fallback_from_mono [where A = "\<lambda>f. P f ch" and As = "\<lambda>f. map (P f) chs @ As f", OF assms(1) Cons.IH]
    by simp
qed

lemma chain_from_mono [partial_function_mono]:
  assumes "\<And>c st. mono_option (\<lambda>f. A f c st)"
    and "\<And>result c st. mono_option (\<lambda>f. chain_from result c (As f) st)"
  shows "mono_option (\<lambda>f. chain_from result ctx (A f # As f) st)"
  unfolding chain_from.simps Let_def
  by (rule bind_mono [OF assms(1)]) (rule sum_case_mono, rule assms(2))

lemma chain_mono [partial_function_mono]:
  assumes "\<And>result c st. mono_option (\<lambda>f. chain_from result c (As f) st)"
  shows "mono_option (\<lambda>f. chain ctx (As f) st)"
  unfolding chain_def by (rule assms)

lemma chainIfOk_from_mono [partial_function_mono]:
  assumes "\<And>c st. mono_option (\<lambda>f. A f c st)"
    and "\<And>result c st. mono_option (\<lambda>f. chainIfOk_from result c (As f) st)"
  shows "mono_option (\<lambda>f. chainIfOk_from result ctx (A f # As f) st)"
  unfolding chainIfOk_from.simps Let_def
  by (rule bind_mono [OF assms(1)]) (rule sum_case_mono, rule if_mono, rule option.const_mono, rule assms(2))

lemma chainIfOk_mono [partial_function_mono]:
  assumes "\<And>result c st. mono_option (\<lambda>f. chainIfOk_from result c (As f) st)"
  shows "mono_option (\<lambda>f. chainIfOk ctx (As f) st)"
  unfolding chainIfOk_def by (rule assms)


subsection \<open>The class \<^verbatim>\<open>RelaxNgValidator\<close>\<close>

text \<open>
  \<^verbatim>\<open>this.defs\<close> is the table of defines by name. \<^verbatim>\<open>_getRef\<close> and \<^verbatim>\<open>_getRefSingle\<close> throw on an
  unknown name; \<^verbatim>\<open>children[0]\<close> of a define without children is \<^verbatim>\<open>undefined\<close> (\<open>None\<close>), and
  reading its \<^verbatim>\<open>type\<close> is a TypeError. The table holds the defines only: a name that \<^verbatim>\<open>in\<close>
  finds on \<^verbatim>\<open>Object.prototype\<close> (such as \<^verbatim>\<open>toString\<close>) is outside the model; on such a name
  the source throws as well, a TypeError.
\<close>

definition getRef :: "(string \<rightharpoonup> rng) \<Rightarrow> string \<Rightarrow> error + rng list" where
  "getRef defs n =
     (case defs n of
        None \<Rightarrow> Inl (Error (''Referencing unknown definition: '' @ n))
      | Some d \<Rightarrow> Inr (nchildren d))"

definition getRefSingle :: "(string \<rightharpoonup> rng) \<Rightarrow> string \<Rightarrow> error + rng option" where
  "getRefSingle defs n =
     (case defs n of
        None \<Rightarrow> Inl (Error (''Referencing unknown definition: '' @ n))
      | Some d \<Rightarrow>
          if length (nchildren d) > 1
          then Inl (Error ''Unsure how to apply definition with multiple patterns'')
          else Inr (case nchildren d of [] \<Rightarrow> None | c # _ \<Rightarrow> Some c))"

definition expectAttrContent :: "rng option \<Rightarrow> error + rng" where
  "expectAttrContent content =
     (case content of
        None \<Rightarrow> Inl TypeError
      | Some c \<Rightarrow>
          if ntype c \<in> {K_text, K_value, K_data, K_choice, K_ref} then Inr c
          else Inl (Error (''Cannot use in attribute context: '' @ type_name (ntype c))))"

text \<open>
  \<^verbatim>\<open>validateAttribute\<close> follows references without bound, so it need not return. Its caller
  passes \<^verbatim>\<open>spec.children[0]\<close>; when that is \<^verbatim>\<open>undefined\<close> the first statement of the method
  throws a TypeError, which the caller's branch below writes out.
\<close>

partial_function (option) validateAttribute ::
  "(string \<rightharpoonup> rng) \<Rightarrow> string \<Rightarrow> attrval \<Rightarrow> rng \<Rightarrow> (error + vresult) option" where
  "validateAttribute defs attrName attrValue spec =
     (if ntype spec = K_ref then
        (case getRefSingle defs (nname spec) of
           Inl e \<Rightarrow> Some (Inl e)
         | Inr content \<Rightarrow>
             (case expectAttrContent content of
                Inl e \<Rightarrow> Some (Inl e)
              | Inr c \<Rightarrow> validateAttribute defs attrName attrValue c))
      else if ntype spec = K_text then
        (if typeof_attr attrValue = ''string'' then Some (Inr (allGood ([], [])))
         else Some (Inr (invalid ([], [])
                (expected_attrText attrName (typeof_attr attrValue)))))
      else Some (Inl (Error (''Unhandled validateAttribute: '' @ type_name (ntype spec)))))"

definition lift_pure :: "(error + 'a) option \<Rightarrow> 'a eff" where
  "lift_pure m st = map_option (map_sum id (\<lambda>a. (a, st))) m"

text \<open>
  The body of \<^verbatim>\<open>validateDetails\<close>, with \<^verbatim>\<open>this.validateDetails\<close> as the parameter \<open>rec\<close>; the
  method itself is its fixed point, \<open>None\<close> where the recursion does not end.
\<close>

definition validateDetails_body ::
  "(context \<Rightarrow> rng list \<Rightarrow> vresult eff) \<Rightarrow> (string \<rightharpoonup> rng) \<Rightarrow> context \<Rightarrow> rng list \<Rightarrow> vresult eff"
  where
  "validateDetails_body rec defs ctx specs st =
     (case specs of
        [] \<Rightarrow> ret (allGood ctx) st
      | spec # restSpecs \<Rightarrow>
          if ntype spec = K_empty then
            (case fst ctx of
               [] \<Rightarrow> ret (allGood ([], [])) st
             | child # restChildren \<Rightarrow>
                 ret (invalid ctx (expected_noChildren (length (fst ctx)))) st)
          else if ntype spec = K_text then
            (case fst ctx of
               [] \<Rightarrow>
                 bind_eff (rec ctx restSpecs)
                   (\<lambda>r. ret (concat2 (invalid ctx (expected_text ''nothing'')) r)) st
             | child # restChildren \<Rightarrow>
                 (case child of
                    XText _ _ \<Rightarrow> rec (restChildren, snd ctx) restSpecs st
                  | _ \<Rightarrow>
                      bind_eff (rec ctx restSpecs)
                        (\<lambda>r. ret (concat2 (invalid ctx (expected_text (xtype child))) r)) st))
          else if ntype spec = K_elementNamed then
            (case fst ctx of
               [] \<Rightarrow>
                 bind_eff (rec ctx restSpecs)
                   (\<lambda>r. ret (concat2 (invalid ctx (expected_elem (nname spec) ''nothing'')) r)) st
             | child # restChildren \<Rightarrow>
                 (case child of
                    XElement _ childName _ _ \<Rightarrow>
                      if childName \<noteq> nname spec then
                        bind_eff (rec ctx restSpecs)
                          (\<lambda>r. ret (concat2
                                 (invalid ctx (expected_elem (nname spec) childName)) r)) st
                      else
                        bind_eff (rec (elemCtx child) (nchildren spec))
                          (\<lambda>inner st'.
                             rec (restChildren, snd ctx) restSpecs
                               (endValidationOnNode child inner st')) st
                  | _ \<Rightarrow>
                      bind_eff (rec ctx restSpecs)
                        (\<lambda>r. ret (concat2
                               (invalid ctx (expected_elem (nname spec) (xtype child))) r)) st))
          else if ntype spec = K_attributeNamed then
            (case map_of (snd ctx) (nname spec) of
               Some attr \<Rightarrow>
                 bind_eff
                   (case nchildren spec of
                      [] \<Rightarrow> throw TypeError
                    | c # _ \<Rightarrow> lift_pure (validateAttribute defs (nname spec) attr c))
                   (\<lambda>r1. bind_eff
                      (rec
                         (fst ctx, filter (\<lambda>kv. fst kv \<noteq> nname spec) (snd ctx)) restSpecs)
                      (\<lambda>r2. ret (concat2 r1 r2))) st
             | None \<Rightarrow>
                 bind_eff (rec ctx restSpecs)
                   (\<lambda>r. ret (concat2 (invalid ctx (expected_attr (nname spec))) r)) st)
          else if ntype spec = K_ref then
            (case getRef defs (nname spec) of
               Inl e \<Rightarrow> Some (Inl e)
             | Inr cs \<Rightarrow> rec ctx (cs @ restSpecs) st)
          else if ntype spec = K_optional then
            fallback
              [chain ctx
                 [\<lambda>ctx. rec ctx (nchildren spec),
                  \<lambda>ctx. rec ctx restSpecs],
               rec ctx restSpecs] st
          else if ntype spec = K_choice then
            fallback
              (map (\<lambda>ch. chain ctx
                      [\<lambda>ctx. rec ctx [ch],
                       \<lambda>ctx. rec ctx restSpecs])
                 (nchildren spec)
               @ [ret (invalid ctx expected_noMatch)]) st
          else if ntype spec = K_zeroOrMore then
            fallback
              [chainIfOk ctx
                 [\<lambda>ctx. rec ctx (nchildren spec),
                  \<lambda>ctx. rec ctx specs],
               rec ctx restSpecs] st
          else if ntype spec = K_oneOrMore then
            chain ctx
              [\<lambda>ctx. rec ctx (nchildren spec),
               \<lambda>ctx. fallback
                  [rec ctx restSpecs,
                   rec ctx specs]] st
          else if ntype spec = K_group then
            rec ctx (nchildren spec @ restSpecs) st
          else Some (Inl (Error (''Unhandled validateDetails: '' @ type_name (ntype spec)))))"

lemma validateDetails_body_mono [partial_function_mono]:
  assumes R: "\<And>c s st. mono_option (\<lambda>f. R f c s st)"
  shows "mono_option (\<lambda>f. validateDetails_body (R f) defs ctx specs st)"
proof (cases specs)
  case Nil
  then show ?thesis by (simp add: validateDetails_body_def option.const_mono)
next
  case (Cons spec restSpecs)
  note rules = partial_function_mono R option.const_mono
  show ?thesis
  proof (cases "fst ctx")
    case Nil
    show ?thesis
      unfolding validateDetails_body_def Cons
      by (cases "map_of (snd ctx) (nname spec)"; cases "getRef defs (nname spec)")
         (simp_all only: Nil list.case option.case sum.case, (intro rules)+)
  next
    case (Cons child restChildren)
    note ctx = Cons
    show ?thesis
      unfolding validateDetails_body_def \<open>specs = spec # restSpecs\<close>
      by (cases child; cases "map_of (snd ctx) (nname spec)"; cases "getRef defs (nname spec)")
         (simp_all only: ctx list.case option.case sum.case xnode.case, (intro rules)+)
  qed
qed

partial_function (option) validateDetails ::
  "(string \<rightharpoonup> rng) \<Rightarrow> context \<Rightarrow> rng list \<Rightarrow> vstore \<Rightarrow> (error + vresult \<times> vstore) option"
  where
  "validateDetails defs ctx specs st = validateDetails_body (validateDetails defs) defs ctx specs st"

definition validateNode :: "(string \<rightharpoonup> rng) \<Rightarrow> xnode \<Rightarrow> rng \<Rightarrow> bool eff" where
  "validateNode defs target spec =
     bind_eff (validateDetails defs ([target], []) [spec])
       (\<lambda>result st. ret (fst result) (endValidationOnNode target result st))"

record validator =
  v_grammar :: rng
  v_specStart :: rng
  v_defs :: "string \<rightharpoonup> rng"

definition addDef :: "rng \<Rightarrow> validator \<Rightarrow> validator" where
  "addDef d v = v\<lparr>v_defs := (v_defs v)(nname d \<mapsto> d)\<rparr>"

definition new_RelaxNgValidator :: "rng \<Rightarrow> error + validator" where
  "new_RelaxNgValidator spec =
     (case nchildren spec of
        [] \<Rightarrow> Inl TypeError
      | g # _ \<Rightarrow>
          (case nchildren g of
             [] \<Rightarrow> Inl TypeError
           | specStart # defs \<Rightarrow>
               if ntype specStart \<noteq> K_start then Inl (Error ''Grammar should begin with start'')
               else if list_ex (\<lambda>d. ntype d \<noteq> K_define) defs
               then Inl (Error ''Should not have multiple starts'')
               else Inr (foldl (\<lambda>v d. addDef d v)
                      \<lparr>v_grammar = g, v_specStart = specStart, v_defs = Map.empty\<rparr> defs)))"

definition validate :: "validator \<Rightarrow> xnode \<Rightarrow> bool eff" where
  "validate v target =
     bind_eff (validateDetails (v_defs v) ([target], []) (nchildren (v_specStart v)))
       (\<lambda>result. ret (fst result))"

section \<open>The simplifier (\<^verbatim>\<open>simplifyRngAst\<close> and its passes): syntax trees as mutable objects\<close>

text \<open>
  The passes of the simplifier change the tree in place while a traversal is running, and a
  node that a pass has replaced in its parent is still visited through the reference the
  traversal holds. What a pass computes depends on that sharing, so the model keeps the
  nodes in a heap: a node is an address, its \<^verbatim>\<open>children\<close> array is a list of JavaScript values,
  each an address or \<^verbatim>\<open>undefined\<close> (\<open>None\<close>), and an allocation appends to the heap. Every
  array belongs to one node (the builders copy their rest parameter), so the array is a
  field of the node. Every address the model handles comes from an allocation.

  A computation on the heap returns a value and the new heap, throws (\<open>Inl\<close>), or runs out
  of the fuel that bounds the traversals (\<open>None\<close>).
\<close>

type_synonym addr = nat
type_synonym jsval = "addr option"

datatype hnode = HNode (h_type: kind) (h_name: string) (h_combine: "combine_method option")
  (h_children: "jsval list")

type_synonym heap = "hnode list"

type_synonym 'a hres = "(error + 'a \<times> heap) option"

definition hret :: "'a \<Rightarrow> heap \<Rightarrow> 'a hres" where
  "hret a h = Some (Inr (a, h))"

definition hthrow :: "error \<Rightarrow> 'a hres" where
  "hthrow e = Some (Inl e)"

definition hbind :: "'a hres \<Rightarrow> ('a \<Rightarrow> heap \<Rightarrow> 'b hres) \<Rightarrow> 'b hres" where
  "hbind m k =
     (case m of None \<Rightarrow> None | Some (Inl e) \<Rightarrow> Some (Inl e) | Some (Inr (a, h)) \<Rightarrow> k a h)"

definition new_node :: "kind \<Rightarrow> string \<Rightarrow> jsval list \<Rightarrow> heap \<Rightarrow> addr \<times> heap" where
  "new_node k n cs h = (length h, h @ [HNode k n None cs])"

definition set_children :: "addr \<Rightarrow> jsval list \<Rightarrow> heap \<Rightarrow> heap" where
  "set_children a cs h = h[a := HNode (h_type (h ! a)) (h_name (h ! a)) (h_combine (h ! a)) cs]"

definition set_name :: "addr \<Rightarrow> string \<Rightarrow> heap \<Rightarrow> heap" where
  "set_name a n h = h[a := HNode (h_type (h ! a)) n (h_combine (h ! a)) (h_children (h ! a))]"

definition set_type :: "addr \<Rightarrow> kind \<Rightarrow> heap \<Rightarrow> heap" where
  "set_type a k h = h[a := HNode k (h_name (h ! a)) (h_combine (h ! a)) (h_children (h ! a))]"

definition set_combine :: "addr \<Rightarrow> combine_method option \<Rightarrow> heap \<Rightarrow> heap" where
  "set_combine a c h = h[a := HNode (h_type (h ! a)) (h_name (h ! a)) c (h_children (h ! a))]"

subsection \<open>Arrays\<close>

text \<open>
  \<^verbatim>\<open>xs[i]\<close> is \<^verbatim>\<open>undefined\<close> out of range; \<^verbatim>\<open>indexOf\<close> is \<open>-1\<close> when the value does not occur;
  \<^verbatim>\<open>splice(start, deleteCount, ...items)\<close> counts a negative start from the end and clamps
  both numbers to the array.
\<close>

definition at_index :: "'a option list \<Rightarrow> nat \<Rightarrow> 'a option" where
  "at_index xs i = (if i < length xs then xs ! i else None)"

fun indexOf_from :: "int \<Rightarrow> 'a list \<Rightarrow> 'a \<Rightarrow> int" where
  "indexOf_from i [] x = - 1"
| "indexOf_from i (y # ys) x = (if y = x then i else indexOf_from (i + 1) ys x)"

definition indexOf :: "'a list \<Rightarrow> 'a \<Rightarrow> int" where
  "indexOf xs x = indexOf_from 0 xs x"

definition splice :: "int \<Rightarrow> nat \<Rightarrow> 'a list \<Rightarrow> 'a list \<Rightarrow> 'a list" where
  "splice start deleteCount items xs =
     (let len = int (length xs);
          s = nat (if start < 0 then max (len + start) 0 else min start len);
          d = min deleteCount (length xs - s)
      in take s xs @ items @ drop (s + d) xs)"

subsection \<open>The traversal of unist-util-visit\<close>

text \<open>
  \<^verbatim>\<open>visit\<close> and \<^verbatim>\<open>visitParents\<close> are library functions. The model follows the library's
  algorithm: a node that passes the test is handed to the visitor; \<^verbatim>\<open>EXIT\<close> ends the whole
  traversal, \<^verbatim>\<open>SKIP\<close> leaves out the node's children; otherwise the children are visited by
  increasing offset, and \<^verbatim>\<open>node.children\<close> and its length are read again at every step, from
  the node the traversal entered (not from whatever replaced it in its parent). A child
  that is \<^verbatim>\<open>undefined\<close> ends in a TypeError. \<^verbatim>\<open>visit\<close> gives its visitor the last ancestor as
  parent and \<^verbatim>\<open>parent.children.indexOf(node)\<close> as index, both \<^verbatim>\<open>undefined\<close> at the root. The
  visitor's own variables (\<^verbatim>\<open>reachedNames\<close>, \<^verbatim>\<open>createdCount\<close>) are the state \<open>'v\<close>.
\<close>

datatype action = CONTINUE | EXIT | SKIP

fun visitParents_node ::
    "nat \<Rightarrow> (kind \<Rightarrow> bool) \<Rightarrow> ('v \<Rightarrow> addr \<Rightarrow> addr list \<Rightarrow> heap \<Rightarrow> (action \<times> 'v) hres) \<Rightarrow>
     'v \<Rightarrow> jsval \<Rightarrow> addr list \<Rightarrow> heap \<Rightarrow> (bool \<times> 'v) hres"
  and visitParents_children ::
    "nat \<Rightarrow> (kind \<Rightarrow> bool) \<Rightarrow> ('v \<Rightarrow> addr \<Rightarrow> addr list \<Rightarrow> heap \<Rightarrow> (action \<times> 'v) hres) \<Rightarrow>
     'v \<Rightarrow> addr \<Rightarrow> addr list \<Rightarrow> nat \<Rightarrow> heap \<Rightarrow> (bool \<times> 'v) hres"
  where
  "visitParents_node 0 test visitor v node parents h = None"
| "visitParents_node (Suc n) test visitor v node parents h =
     (case node of
        None \<Rightarrow> Some (Inl TypeError)
      | Some a \<Rightarrow>
          hbind (if test (h_type (h ! a)) then visitor v a parents h else hret (CONTINUE, v) h)
            (\<lambda>result h'.
               if fst result = EXIT then hret (True, snd result) h'
               else if fst result = SKIP then hret (False, snd result) h'
               else visitParents_children n test visitor (snd result) a (parents @ [a]) 0 h'))"
| "visitParents_children 0 test visitor v a grandparents offset h = None"
| "visitParents_children (Suc n) test visitor v a grandparents offset h =
     (if offset < length (h_children (h ! a)) then
        hbind (visitParents_node n test visitor v (h_children (h ! a) ! offset) grandparents h)
          (\<lambda>subresult h'.
             if fst subresult then hret (True, snd subresult) h'
             else visitParents_children n test visitor (snd subresult) a grandparents
                    (offset + 1) h')
      else hret (False, v) h)"

definition visitParents ::
  "nat \<Rightarrow> (kind \<Rightarrow> bool) \<Rightarrow> ('v \<Rightarrow> addr \<Rightarrow> addr list \<Rightarrow> heap \<Rightarrow> (action \<times> 'v) hres) \<Rightarrow>
   'v \<Rightarrow> addr \<Rightarrow> heap \<Rightarrow> 'v hres" where
  "visitParents fuel test visitor v tree h =
     hbind (visitParents_node fuel test visitor v (Some tree) [] h) (\<lambda>r. hret (snd r))"

definition visit ::
  "nat \<Rightarrow> (kind \<Rightarrow> bool) \<Rightarrow>
   ('v \<Rightarrow> addr \<Rightarrow> int option \<Rightarrow> addr option \<Rightarrow> heap \<Rightarrow> (action \<times> 'v) hres) \<Rightarrow>
   'v \<Rightarrow> addr \<Rightarrow> heap \<Rightarrow> 'v hres" where
  "visit fuel test visitor v tree h =
     visitParents fuel test
       (\<lambda>v node parents h.
          case parents of
            [] \<Rightarrow> visitor v node None None h
          | _ \<Rightarrow> visitor v node
                 (Some (indexOf (h_children (h ! last parents)) (Some node)))
                 (Some (last parents)) h)
       v tree h"

subsection \<open>The builders, allocating\<close>

definition hb_empty :: "heap \<Rightarrow> addr \<times> heap" where
  "hb_empty h = new_node K_empty [] [] h"

definition hb_text :: "heap \<Rightarrow> addr \<times> heap" where
  "hb_text h = new_node K_text [] [] h"

definition hb_notAllowed :: "heap \<Rightarrow> addr \<times> heap" where
  "hb_notAllowed h = new_node K_notAllowed [] [] h"

definition hb_name :: "string \<Rightarrow> heap \<Rightarrow> addr \<times> heap" where
  "hb_name n h = new_node K_name n [] h"

definition hb_ref :: "string \<Rightarrow> heap \<Rightarrow> addr \<times> heap" where
  "hb_ref n h = new_node K_ref n [] h"

definition hb_elem :: "jsval \<Rightarrow> jsval list \<Rightarrow> heap \<Rightarrow> addr \<times> heap" where
  "hb_elem elemNameClass cs h =
     (if length cs = 0
      then (let (e, h1) = hb_empty h in new_node K_element [] [elemNameClass, Some e] h1)
      else new_node K_element [] (elemNameClass # cs) h)"

definition hb_attr :: "jsval \<Rightarrow> jsval list \<Rightarrow> heap \<Rightarrow> addr \<times> heap" where
  "hb_attr nameClass args h =
     (case at_index args 0 of
        None \<Rightarrow> (let (t, h1) = hb_text h in new_node K_attribute [] [nameClass, Some t] h1)
      | Some child \<Rightarrow> new_node K_attribute [] [nameClass, Some child] h)"

definition hb_group :: "jsval list \<Rightarrow> heap \<Rightarrow> addr \<times> heap" where
  "hb_group cs h = new_node K_group [] cs h"

definition hb_choice :: "jsval list \<Rightarrow> heap \<Rightarrow> addr \<times> heap" where
  "hb_choice cs h = new_node K_choice [] cs h"

definition hb_interleave :: "jsval list \<Rightarrow> heap \<Rightarrow> addr \<times> heap" where
  "hb_interleave cs h = new_node K_interleave [] cs h"

definition hb_oneOrMore :: "jsval list \<Rightarrow> heap \<Rightarrow> addr \<times> heap" where
  "hb_oneOrMore cs h = new_node K_oneOrMore [] cs h"

definition hb_start :: "jsval \<Rightarrow> heap \<Rightarrow> addr \<times> heap" where
  "hb_start child h = new_node K_start [] [child] h"

definition hb_define :: "string \<Rightarrow> jsval list \<Rightarrow> heap \<Rightarrow> addr \<times> heap" where
  "hb_define n cs h = new_node K_define n cs h"

definition hb_grammar :: "jsval \<Rightarrow> jsval list \<Rightarrow> heap \<Rightarrow> addr \<times> heap" where
  "hb_grammar st defs h = new_node K_grammar [] (st # defs) h"

subsection \<open>4.8: \<^verbatim>\<open>moveNameAttributeToChild\<close>\<close>

definition moveNameAttributeToChild_visitor ::
  "unit \<Rightarrow> addr \<Rightarrow> int option \<Rightarrow> addr option \<Rightarrow> heap \<Rightarrow> (action \<times> unit) hres" where
  "moveNameAttributeToChild_visitor v node index parent h =
     (case (index, parent) of
        (Some i, Some p) \<Rightarrow>
          if h_type (h ! node) = K_elementNamed then
            (let (nc, h1) = hb_name (h_name (h ! node)) h;
                 (el, h2) = hb_elem (Some nc) (h_children (h1 ! node)) h1
             in hret (CONTINUE, v) (set_children p (splice i 1 [Some el] (h_children (h2 ! p))) h2))
          else if h_type (h ! node) = K_attributeNamed then
            (let (nc, h1) = hb_name (h_name (h ! node)) h;
                 (at, h2) = hb_attr (Some nc) (h_children (h1 ! node)) h1
             in hret (CONTINUE, v) (set_children p (splice i 1 [Some at] (h_children (h2 ! p))) h2))
          else hret (CONTINUE, v) h
      | _ \<Rightarrow> hret (CONTINUE, v) h)"

definition moveNameAttributeToChild :: "nat \<Rightarrow> addr \<Rightarrow> heap \<Rightarrow> unit hres" where
  "moveNameAttributeToChild fuel tree h =
     visit fuel (\<lambda>k. k = K_elementNamed \<or> k = K_attributeNamed)
       moveNameAttributeToChild_visitor () tree h"

subsection \<open>4.12: \<^verbatim>\<open>controlChildren\<close>\<close>

definition reduce_builder :: "kind \<Rightarrow> jsval list \<Rightarrow> heap \<Rightarrow> jsval \<times> heap" where
  "reduce_builder k cs h =
     foldl (\<lambda>(p1, h1) p2. let (n, h2) = new_node k [] [p1, p2] h1 in (Some n, h2))
       (at_index cs 0, h) (tl cs)"

definition controlChildren_visitor ::
  "unit \<Rightarrow> addr \<Rightarrow> int option \<Rightarrow> addr option \<Rightarrow> heap \<Rightarrow> (action \<times> unit) hres" where
  "controlChildren_visitor v node index parent h =
     (let k = h_type (h ! node); cs = h_children (h ! node) in
      if k = K_define \<or> k = K_oneOrMore \<or> k = K_zeroOrMore \<or> k = K_optional \<or> k = K_mixed then
        (if length cs > 1
         then (let (g, h1) = hb_group cs h in hret (CONTINUE, v) (set_children node [Some g] h1))
         else hret (CONTINUE, v) h)
      else if k = K_element then
        (if length cs > 2
         then (let (g, h1) = hb_group (tl cs) h
               in hret (CONTINUE, v) (set_children node [at_index cs 0, Some g] h1))
         else hret (CONTINUE, v) h)
      else if k = K_attribute then
        (if length cs = 1
         then (let (t, h1) = hb_text h in hret (CONTINUE, v) (set_children node (cs @ [Some t]) h1))
         else hret (CONTINUE, v) h)
      else if k = K_choice \<or> k = K_group \<or> k = K_interleave then
        (case (index, parent) of
           (Some i, Some p) \<Rightarrow>
             if length cs = 1 then
               hret (CONTINUE, v) (set_children p (splice i 1 [at_index cs 0] (h_children (h ! p))) h)
             else if length cs > 2 then
               (let (r, h1) = reduce_builder k cs h
                in hret (CONTINUE, v) (set_children p (splice i 1 [r] (h_children (h1 ! p))) h1))
             else hret (CONTINUE, v) h
         | _ \<Rightarrow> hret (CONTINUE, v) h)
      else hret (CONTINUE, v) h)"

definition controlChildren :: "nat \<Rightarrow> addr \<Rightarrow> heap \<Rightarrow> unit hres" where
  "controlChildren fuel tree h = visit fuel (\<lambda>k. True) controlChildren_visitor () tree h"

subsection \<open>4.13 to 4.15: \<^verbatim>\<open>replaceMixedOptionalAndZeroOrMore\<close>\<close>

definition replaceMixedOptionalAndZeroOrMore_visitor ::
  "unit \<Rightarrow> addr \<Rightarrow> int option \<Rightarrow> addr option \<Rightarrow> heap \<Rightarrow> (action \<times> unit) hres" where
  "replaceMixedOptionalAndZeroOrMore_visitor v node index parent h =
     (case (index, parent) of
        (Some i, Some p) \<Rightarrow>
          (let k = h_type (h ! node); c0 = at_index (h_children (h ! node)) 0 in
           if k = K_mixed then
             (let (t, h1) = hb_text h;
                  (newNode, h2) = hb_interleave [c0, Some t] h1
              in hret (CONTINUE, v)
                   (set_children p (splice i 1 [Some newNode] (h_children (h2 ! p))) h2))
           else if k = K_optional then
             (let (e, h1) = hb_empty h;
                  (newNode, h2) = hb_choice [c0, Some e] h1
              in hret (CONTINUE, v)
                   (set_children p (splice i 1 [Some newNode] (h_children (h2 ! p))) h2))
           else if k = K_zeroOrMore then
             (let (m, h1) = hb_oneOrMore [c0] h;
                  (e, h2) = hb_empty h1;
                  (newNode, h3) = hb_choice [Some m, Some e] h2
              in hret (CONTINUE, v)
                   (set_children p (splice i 1 [Some newNode] (h_children (h3 ! p))) h3))
           else hret (CONTINUE, v) h)
      | _ \<Rightarrow> hret (CONTINUE, v) h)"

definition replaceMixedOptionalAndZeroOrMore :: "nat \<Rightarrow> addr \<Rightarrow> heap \<Rightarrow> unit hres" where
  "replaceMixedOptionalAndZeroOrMore fuel tree h =
     visit fuel (\<lambda>k. k = K_mixed \<or> k = K_optional \<or> k = K_zeroOrMore)
       replaceMixedOptionalAndZeroOrMore_visitor () tree h"

subsection \<open>4.17: \<^verbatim>\<open>eliminateCombineAttribute\<close>\<close>

text \<open>
  \<^verbatim>\<open>items.sort\<close> with \<^verbatim>\<open>compare\<close> on the \<^verbatim>\<open>combine\<close> attribute: items without \<^verbatim>\<open>combine\<close> come
  first, then \<^verbatim>\<open>'choice'\<close>, then \<^verbatim>\<open>'interleave'\<close>. The model is the insertion sort that places
  an item before the first one it compares less than. \<^verbatim>\<open>combine_step\<close> is the callback of
  \<^verbatim>\<open>reduce\<close>. Its second message is written with plain quotes in the source, so
  \<^verbatim>\<open>${errorName}\<close> is part of the text.
\<close>

definition compare :: "combine_method option \<Rightarrow> combine_method option \<Rightarrow> int" where
  "compare a b =
     (case a of
        None \<Rightarrow> - 1
      | Some x \<Rightarrow>
          (case b of
             None \<Rightarrow> 1
           | Some y \<Rightarrow>
               if x = Choice \<and> y = Interleave then - 1
               else if x = Interleave \<and> y = Choice then 1 else 0))"

fun sort_insert :: "heap \<Rightarrow> addr \<Rightarrow> addr list \<Rightarrow> addr list" where
  "sort_insert h x [] = [x]"
| "sort_insert h x (y # ys) =
     (if compare (h_combine (h ! x)) (h_combine (h ! y)) < 0 then x # y # ys
      else y # sort_insert h x ys)"

definition sort_by_combine :: "heap \<Rightarrow> addr list \<Rightarrow> addr list" where
  "sort_by_combine h items = foldl (\<lambda>sorted x. sort_insert h x sorted) [] items"

definition combine_step ::
  "(jsval \<Rightarrow> heap \<Rightarrow> addr \<times> heap) \<Rightarrow> string \<Rightarrow> addr \<Rightarrow> addr \<Rightarrow> heap \<Rightarrow> addr hres" where
  "combine_step builder errorName p1 p2 h =
     (if h_combine (h ! p1) = None \<and> h_combine (h ! p2) = None then
        hthrow (Error (''Cannot have multiple '' @ errorName @ '' without specifying combine''))
      else
        (let h1 = (if h_combine (h ! p1) = None then set_combine p1 (h_combine (h ! p2)) h else h);
             h2 = (if h_combine (h1 ! p2) = None then set_combine p2 (h_combine (h1 ! p1)) h1
                   else h1)
         in if h_combine (h2 ! p1) \<noteq> h_combine (h2 ! p2) then
              hthrow (Error ''Cannot have multiple ${errorName} with different combine values'')
            else
              (let c1 = at_index (h_children (h2 ! p1)) 0;
                   c2 = at_index (h_children (h2 ! p2)) 0;
                   (inner, h3) = (if h_combine (h2 ! p1) = Some Choice then hb_choice [c1, c2] h2
                                  else hb_interleave [c1, c2] h2);
                   (result, h4) = builder (Some inner) h3
               in hret result (set_combine result (h_combine (h4 ! p1)) h4))))"

fun combine_reduce ::
  "(jsval \<Rightarrow> heap \<Rightarrow> addr \<times> heap) \<Rightarrow> string \<Rightarrow> addr \<Rightarrow> addr list \<Rightarrow> heap \<Rightarrow> addr hres" where
  "combine_reduce builder errorName p1 [] h = hret p1 h"
| "combine_reduce builder errorName p1 (p2 # ps) h =
     hbind (combine_step builder errorName p1 p2 h)
       (\<lambda>result h'. combine_reduce builder errorName result ps h')"

definition combine ::
  "addr list \<Rightarrow> (jsval \<Rightarrow> heap \<Rightarrow> addr \<times> heap) \<Rightarrow> string \<Rightarrow> heap \<Rightarrow> addr hres" where
  "combine items builder errorName h =
     (case sort_by_combine h items of
        [] \<Rightarrow> hthrow (Error ''Cannot have a grammar without a start'')
      | p # ps \<Rightarrow> combine_reduce builder errorName p ps h)"

definition push_define :: "string \<Rightarrow> addr \<Rightarrow> (string \<times> addr list) list \<Rightarrow> (string \<times> addr list) list"
  where
  "push_define n a m =
     (if n \<in> fst ` set m then map (\<lambda>kv. if fst kv = n then (fst kv, snd kv @ [a]) else kv) m
      else m @ [(n, [a])])"

fun collect_grammar_content ::
  "heap \<Rightarrow> jsval list \<Rightarrow> addr list \<Rightarrow> (string \<times> addr list) list \<Rightarrow>
   error + addr list \<times> (string \<times> addr list) list" where
  "collect_grammar_content h [] starts definesByName = Inr (starts, definesByName)"
| "collect_grammar_content h (child # rest) starts definesByName =
     (case child of
        None \<Rightarrow> Inl TypeError
      | Some a \<Rightarrow>
          if h_type (h ! a) = K_start
          then collect_grammar_content h rest (starts @ [a]) definesByName
          else if h_type (h ! a) = K_define
          then collect_grammar_content h rest starts (push_define (h_name (h ! a)) a definesByName)
          else collect_grammar_content h rest starts definesByName)"

fun combine_defines :: "(string \<times> addr list) list \<Rightarrow> heap \<Rightarrow> addr list hres" where
  "combine_defines [] h = hret [] h"
| "combine_defines ((k, defs) # entries) h =
     hbind (combine defs (\<lambda>d. hb_define k [d]) (''defines for name '' @ k) h)
       (\<lambda>d h1. hbind (combine_defines entries h1) (\<lambda>ds. hret (d # ds)))"

definition eliminateCombineAttribute_visitor ::
  "unit \<Rightarrow> addr \<Rightarrow> int option \<Rightarrow> addr option \<Rightarrow> heap \<Rightarrow> (action \<times> unit) hres" where
  "eliminateCombineAttribute_visitor v node index parent h =
     (case collect_grammar_content h (h_children (h ! node)) [] [] of
        Inl e \<Rightarrow> hthrow e
      | Inr (starts, definesByName) \<Rightarrow>
          if length starts = 0 then hthrow (Error ''A grammar must have a start element'')
          else
            hbind (combine starts hb_start ''start elements'' h)
              (\<lambda>collectedStarts h1.
                 hbind (combine_defines definesByName h1)
                   (\<lambda>collectedDefines h2.
                      hret (CONTINUE, v)
                        (set_children node (Some collectedStarts # map Some collectedDefines) h2))))"

definition eliminateCombineAttribute :: "nat \<Rightarrow> addr \<Rightarrow> heap \<Rightarrow> unit hres" where
  "eliminateCombineAttribute fuel tree h =
     visit fuel (\<lambda>k. k = K_grammar) eliminateCombineAttribute_visitor () tree h"

subsection \<open>4.18: \<^verbatim>\<open>ensureOnlyOneGrammarElement\<close>\<close>

definition ensureTopLevelGrammar :: "addr \<Rightarrow> heap \<Rightarrow> addr hres" where
  "ensureTopLevelGrammar tree h =
     (if length (h_children (h ! tree)) \<noteq> 1
      then hthrow (Error ''Must have exactly one top level element'')
      else
        (case h_children (h ! tree) ! 0 of
           None \<Rightarrow> hthrow TypeError
         | Some c \<Rightarrow>
             if h_type (h ! c) \<noteq> K_grammar then
               (let (s, h1) = hb_start (Some c) h;
                    (g, h2) = hb_grammar (Some s) [] h1
                in hret g (set_children tree ((h_children (h2 ! tree))[0 := Some g]) h2))
             else hret c h))"

definition selectAll :: "nat \<Rightarrow> kind \<Rightarrow> addr \<Rightarrow> heap \<Rightarrow> addr list hres" where
  "selectAll fuel k tree h =
     visitParents fuel (\<lambda>k'. k' = k) (\<lambda>found node parents. hret (CONTINUE, found @ [node]))
       [] tree h"

fun determineNewName_loop :: "nat \<Rightarrow> nat \<Rightarrow> string \<Rightarrow> string list \<Rightarrow> string option" where
  "determineNewName_loop 0 n name names = None"
| "determineNewName_loop (Suc fuel) n name names =
     (let n' = n + 1; newName = name @ ''__'' @ string_of_nat n'
      in if newName \<in> set names then determineNewName_loop fuel n' name names
         else Some newName)"

definition determineNewName :: "nat \<Rightarrow> string \<Rightarrow> string list \<Rightarrow> string option" where
  "determineNewName fuel name names = determineNewName_loop fuel 0 name names"

type_synonym substitutions = "(string \<times> (addr \<times> string) list) list"

definition push_substitution :: "string \<Rightarrow> addr \<times> string \<Rightarrow> substitutions \<Rightarrow> substitutions"
  where
  "push_substitution n s m =
     (if n \<in> fst ` set m then map (\<lambda>kv. if fst kv = n then (fst kv, snd kv @ [s]) else kv) m
      else m @ [(n, [s])])"

fun rename_defines ::
  "nat \<Rightarrow> addr \<Rightarrow> jsval list \<Rightarrow> string list \<times> substitutions \<Rightarrow> heap \<Rightarrow>
   (string list \<times> substitutions) hres" where
  "rename_defines fuel parent [] ns h = hret ns h"
| "rename_defines fuel parent (node # rest) ns h =
     (case node of
        None \<Rightarrow> hthrow TypeError
      | Some a \<Rightarrow>
          if h_type (h ! a) = K_define then
            (let name = h_name (h ! a) in
             if name \<notin> set (fst ns) then rename_defines fuel parent rest (fst ns @ [name], snd ns) h
             else
               (case determineNewName fuel name (fst ns) of
                  None \<Rightarrow> None
                | Some newName \<Rightarrow>
                    rename_defines fuel parent rest
                      (fst ns, push_substitution name (parent, newName) (snd ns))
                      (set_name a newName h)))
          else rename_defines fuel parent rest ns h)"

fun rename_in_grammars ::
  "nat \<Rightarrow> addr list \<Rightarrow> string list \<times> substitutions \<Rightarrow> heap \<Rightarrow>
   (string list \<times> substitutions) hres" where
  "rename_in_grammars fuel [] ns h = hret ns h"
| "rename_in_grammars fuel (parent # rest) ns h =
     hbind (rename_defines fuel parent (h_children (h ! parent)) ns h)
       (\<lambda>ns' h'. rename_in_grammars fuel rest ns' h')"

fun findClosestGrammar_loop :: "heap \<Rightarrow> addr list \<Rightarrow> bool \<Rightarrow> error + addr" where
  "findClosestGrammar_loop h [] skip = Inl (Error ''Each ref or parentRef must be within a grammar'')"
| "findClosestGrammar_loop h (el # rest) skip =
     (if h_type (h ! el) = K_grammar
      then (if skip then findClosestGrammar_loop h rest False else Inr el)
      else findClosestGrammar_loop h rest skip)"

definition findClosestGrammar :: "heap \<Rightarrow> addr list \<Rightarrow> kind \<Rightarrow> error + addr" where
  "findClosestGrammar h ancestors refType =
     findClosestGrammar_loop h (rev ancestors) (refType = K_parentRef)"

definition fix_refs_visitor ::
  "substitutions \<Rightarrow> unit \<Rightarrow> addr \<Rightarrow> addr list \<Rightarrow> heap \<Rightarrow> (action \<times> unit) hres" where
  "fix_refs_visitor substitutions v node ancestors h =
     (let k = h_type (h ! node) in
      if k \<noteq> K_ref \<and> k \<noteq> K_parentRef then hret (CONTINUE, v) h
      else
        (case map_of substitutions (h_name (h ! node)) of
           None \<Rightarrow> hret (CONTINUE, v) h
         | Some relevantSubs \<Rightarrow>
             (case findClosestGrammar h ancestors k of
                Inl e \<Rightarrow> hthrow e
              | Inr grammar \<Rightarrow>
                  (case find (\<lambda>s. fst s = grammar) relevantSubs of
                     Some s \<Rightarrow>
                       (let h1 = set_name node (snd s) h;
                            h2 = (if k = K_parentRef then set_type node K_ref h1 else h1)
                        in hret (CONTINUE, v) h2)
                   | None \<Rightarrow>
                       hthrow (Error (''Should have found a substitution for ''
                                      @ h_name (h ! node)))))))"

fun push_defines_to :: "addr \<Rightarrow> jsval list \<Rightarrow> heap \<Rightarrow> unit hres" where
  "push_defines_to topGrammar [] h = hret () h"
| "push_defines_to topGrammar (child # rest) h =
     (case child of
        None \<Rightarrow> hthrow TypeError
      | Some a \<Rightarrow>
          if h_type (h ! a) = K_define
          then push_defines_to topGrammar rest
                 (set_children topGrammar (h_children (h ! topGrammar) @ [Some a]) h)
          else push_defines_to topGrammar rest h)"

definition supplant_grammar_visitor ::
  "addr \<Rightarrow> unit \<Rightarrow> addr \<Rightarrow> int option \<Rightarrow> addr option \<Rightarrow> heap \<Rightarrow> (action \<times> unit) hres" where
  "supplant_grammar_visitor topGrammar v node index parent h =
     (case (index, parent) of
        (Some i, Some p) \<Rightarrow>
          if node = topGrammar \<or> h_type (h ! node) \<noteq> K_grammar then hret (CONTINUE, v) h
          else
            hbind (push_defines_to topGrammar (h_children (h ! node)) h)
              (\<lambda>u h1.
                 case at_index (h_children (h1 ! node)) 0 of
                   None \<Rightarrow> hthrow TypeError
                 | Some s \<Rightarrow>
                     hret (CONTINUE, v)
                       (set_children p
                          (splice i 1 [at_index (h_children (h1 ! s)) 0] (h_children (h1 ! p)))
                          h1))
      | _ \<Rightarrow> hret (CONTINUE, v) h)"

definition ensureOnlyOneGrammarElement :: "nat \<Rightarrow> addr \<Rightarrow> heap \<Rightarrow> unit hres" where
  "ensureOnlyOneGrammarElement fuel tree h =
     hbind (ensureTopLevelGrammar tree h)
       (\<lambda>topGrammar h1.
          hbind (selectAll fuel K_grammar tree h1)
            (\<lambda>allGrammars h2.
               hbind (rename_in_grammars fuel allGrammars ([], []) h2)
                 (\<lambda>ns h3.
                    hbind (visitParents fuel (\<lambda>k. True) (fix_refs_visitor (snd ns)) () tree h3)
                      (\<lambda>u h4.
                         visit fuel (\<lambda>k. k = K_grammar) (supplant_grammar_visitor topGrammar)
                           () tree h4))))"

subsection \<open>4.19: \<^verbatim>\<open>canonicalDefineAndElement\<close>\<close>

text \<open>
  \<^verbatim>\<open>getMapOfDefines\<close> destructures \<^verbatim>\<open>const [, _defines] = grammar.children\<close>: the pattern has no
  rest element, so \<^verbatim>\<open>_defines\<close> is the second child of the grammar (its first define), or
  \<^verbatim>\<open>undefined\<close> when the grammar has only its start. The loop \<^verbatim>\<open>for (const define of _defines)\<close>
  asks that value for its iterator. A node is a plain object without \<^verbatim>\<open>Symbol.iterator\<close>, and
  \<^verbatim>\<open>undefined\<close> has no properties: in both cases the loop throws a TypeError before its body
  runs. \<open>for_of\<close> is that loop over a value of the model: it has no case that iterates.
\<close>

definition for_of :: "jsval \<Rightarrow> (addr \<Rightarrow> 's \<Rightarrow> 's) \<Rightarrow> 's \<Rightarrow> error + 's" where
  "for_of iterable body s = (case iterable of None \<Rightarrow> Inl TypeError | Some obj \<Rightarrow> Inl TypeError)"

definition getMapOfDefines :: "heap \<Rightarrow> addr \<Rightarrow> error + (string \<times> addr) list" where
  "getMapOfDefines h grammar =
     (let defines = at_index (h_children (h ! grammar)) 1
      in for_of defines (\<lambda>define m. (h_name (h ! define), define) # m) [])"

definition removeUnreachableDefines_visitor ::
  "addr \<Rightarrow> (string \<times> addr) list \<Rightarrow> string list \<Rightarrow> addr \<Rightarrow> int option \<Rightarrow> addr option \<Rightarrow> heap \<Rightarrow>
   (action \<times> string list) hres" where
  "removeUnreachableDefines_visitor topGrammar definesByName reachedNames node index parent h =
     (if h_type (h ! node) = K_ref \<and> h_name (h ! node) \<notin> set reachedNames then
        (let reachedNames' = reachedNames @ [h_name (h ! node)];
             defineToMove = map_of definesByName (h_name (h ! node));
             oldIndex = indexOf (h_children (h ! topGrammar)) defineToMove;
             newIndex = int (length reachedNames');
             cs1 = splice oldIndex 1 [] (h_children (h ! topGrammar));
             cs2 = splice newIndex 1 [defineToMove] cs1
         in hret (CONTINUE, reachedNames') (set_children topGrammar cs2 h))
      else if h_type (h ! node) = K_define \<and> h_name (h ! node) \<notin> set reachedNames then
        hret (EXIT, reachedNames) h
      else hret (CONTINUE, reachedNames) h)"

definition removeUnreachableDefines :: "nat \<Rightarrow> addr \<Rightarrow> heap \<Rightarrow> unit hres" where
  "removeUnreachableDefines fuel tree h =
     hbind (ensureTopLevelGrammar tree h)
       (\<lambda>topGrammar h1.
          case getMapOfDefines h1 topGrammar of
            Inl e \<Rightarrow> hthrow e
          | Inr definesByName \<Rightarrow>
              hbind (visit fuel (\<lambda>k. True)
                       (removeUnreachableDefines_visitor topGrammar definesByName) [] tree h1)
                (\<lambda>reached. hret ()))"

definition createDefinesForEachElement_visitor ::
  "addr \<Rightarrow> nat \<Rightarrow> addr \<Rightarrow> int option \<Rightarrow> addr option \<Rightarrow> heap \<Rightarrow> (action \<times> nat) hres" where
  "createDefinesForEachElement_visitor topGrammar createdCount node index parent h =
     (case (index, parent) of
        (Some i, Some p) \<Rightarrow>
          if h_type (h ! node) = K_element \<and> h_type (h ! p) \<noteq> K_define then
            (let createdCount' = createdCount + 1;
                 newName = ''elem__'' @ string_of_nat createdCount';
                 (d, h1) = hb_define newName [Some node] h;
                 h2 = set_children topGrammar (h_children (h1 ! topGrammar) @ [Some d]) h1;
                 (r, h3) = hb_ref newName h2
             in hret (SKIP, createdCount')
                  (set_children p (splice i 1 [Some r] (h_children (h3 ! p))) h3))
          else hret (CONTINUE, createdCount) h
      | _ \<Rightarrow> hret (CONTINUE, createdCount) h)"

definition createDefinesForEachElement :: "nat \<Rightarrow> addr \<Rightarrow> heap \<Rightarrow> unit hres" where
  "createDefinesForEachElement fuel tree h =
     hbind (ensureTopLevelGrammar tree h)
       (\<lambda>topGrammar h1.
          hbind (visit fuel (\<lambda>k. k = K_element)
                   (createDefinesForEachElement_visitor topGrammar) 0 tree h1)
            (\<lambda>created. hret ()))"

definition substitute_refs_visitor ::
  "(string \<times> addr) list \<Rightarrow> unit \<Rightarrow> addr \<Rightarrow> int option \<Rightarrow> addr option \<Rightarrow> heap \<Rightarrow>
   (action \<times> unit) hres" where
  "substitute_refs_visitor definesByName v node index parent h =
     (case (index, parent) of
        (Some i, Some p) \<Rightarrow>
          if h_type (h ! node) = K_ref then
            (case map_of definesByName (h_name (h ! node)) of
               None \<Rightarrow> hthrow TypeError
             | Some d \<Rightarrow>
                 (case at_index (h_children (h ! d)) 0 of
                    None \<Rightarrow> hthrow TypeError
                  | Some defineChild \<Rightarrow>
                      if h_type (h ! defineChild) \<noteq> K_element
                      then hret (CONTINUE, v)
                             (set_children p
                                (splice i 1 [Some defineChild] (h_children (h ! p))) h)
                      else hret (CONTINUE, v) h))
          else hret (CONTINUE, v) h
      | _ \<Rightarrow> hret (CONTINUE, v) h)"

fun filter_element_defines :: "heap \<Rightarrow> jsval list \<Rightarrow> error + jsval list" where
  "filter_element_defines h [] = Inr []"
| "filter_element_defines h (ch # rest) =
     (case ch of
        None \<Rightarrow> Inl TypeError
      | Some a \<Rightarrow>
          (case (if h_type (h ! a) \<noteq> K_define then Inr True
                 else (case at_index (h_children (h ! a)) 0 of
                         None \<Rightarrow> Inl TypeError
                       | Some c \<Rightarrow> Inr (h_type (h ! c) = K_element))) of
             Inl e \<Rightarrow> Inl e
           | Inr keep \<Rightarrow>
               (case filter_element_defines h rest of
                  Inl e \<Rightarrow> Inl e
                | Inr kept \<Rightarrow> Inr (if keep then ch # kept else kept))))"

definition canonicalDefineAndElement :: "nat \<Rightarrow> addr \<Rightarrow> heap \<Rightarrow> unit hres" where
  "canonicalDefineAndElement fuel tree h =
     hbind (removeUnreachableDefines fuel tree h)
       (\<lambda>u h1.
          hbind (createDefinesForEachElement fuel tree h1)
            (\<lambda>u h2.
               hbind (ensureTopLevelGrammar tree h2)
                 (\<lambda>topGrammar h3.
                    case getMapOfDefines h3 topGrammar of
                      Inl e \<Rightarrow> hthrow e
                    | Inr definesByName \<Rightarrow>
                        hbind (visit fuel (\<lambda>k. k = K_ref)
                                 (substitute_refs_visitor definesByName) () tree h3)
                          (\<lambda>u h4.
                             case filter_element_defines h4 (h_children (h4 ! topGrammar)) of
                               Inl e \<Rightarrow> hthrow e
                             | Inr kept \<Rightarrow> hret () (set_children topGrammar kept h4)))))"

subsection \<open>\<^verbatim>\<open>visitPostOrder\<close>\<close>

text \<open>
  The explicit stack of the source, its top at the head of the list. An entry is the node,
  the number of its children already pushed, and the parent with the node's index.
\<close>

type_synonym post_entry = "jsval \<times> nat \<times> (addr \<times> nat) option"

fun visitPostOrder_loop ::
  "nat \<Rightarrow> (addr \<Rightarrow> nat option \<Rightarrow> addr option \<Rightarrow> heap \<Rightarrow> unit hres) \<Rightarrow> post_entry list \<Rightarrow> heap \<Rightarrow>
   unit hres" where
  "visitPostOrder_loop 0 visitor stack h = None"
| "visitPostOrder_loop (Suc fuel) visitor [] h = hret () h"
| "visitPostOrder_loop (Suc fuel) visitor ((node, pass, parentCtx) # stack) h =
     (case node of
        None \<Rightarrow> hthrow TypeError
      | Some a \<Rightarrow>
          if pass < length (h_children (h ! a)) then
            visitPostOrder_loop fuel visitor
              ((h_children (h ! a) ! pass, 0, Some (a, pass)) # (node, pass + 1, parentCtx) # stack) h
          else
            hbind (visitor a (map_option snd parentCtx) (map_option fst parentCtx) h)
              (\<lambda>u h'. visitPostOrder_loop fuel visitor stack h'))"

definition visitPostOrder ::
  "nat \<Rightarrow> (addr \<Rightarrow> nat option \<Rightarrow> addr option \<Rightarrow> heap \<Rightarrow> unit hres) \<Rightarrow> addr \<Rightarrow> heap \<Rightarrow> unit hres"
  where
  "visitPostOrder fuel visitor tree h = visitPostOrder_loop fuel visitor [(Some tree, 0, None)] h"

subsection \<open>4.20: \<^verbatim>\<open>limitLocationsOfNotAllowed\<close>\<close>

definition type_of_child :: "heap \<Rightarrow> jsval list \<Rightarrow> nat \<Rightarrow> error + kind" where
  "type_of_child h cs i =
     (case at_index cs i of None \<Rightarrow> Inl TypeError | Some c \<Rightarrow> Inr (h_type (h ! c)))"

fun some_notAllowed :: "heap \<Rightarrow> jsval list \<Rightarrow> error + bool" where
  "some_notAllowed h [] = Inr False"
| "some_notAllowed h (ch # rest) =
     (case ch of
        None \<Rightarrow> Inl TypeError
      | Some c \<Rightarrow> if h_type (h ! c) = K_notAllowed then Inr True else some_notAllowed h rest)"

definition replace_with_notAllowed :: "addr \<Rightarrow> nat \<Rightarrow> heap \<Rightarrow> unit hres" where
  "replace_with_notAllowed p i h =
     (let (n, h1) = hb_notAllowed h
      in hret () (set_children p (splice (int i) 1 [Some n] (h_children (h1 ! p))) h1))"

definition limitLocationsOfNotAllowed_visitor ::
  "addr \<Rightarrow> nat option \<Rightarrow> addr option \<Rightarrow> heap \<Rightarrow> unit hres" where
  "limitLocationsOfNotAllowed_visitor node index parent h =
     (case (index, parent) of
        (Some i, Some p) \<Rightarrow>
          (let k = h_type (h ! node); cs = h_children (h ! node) in
           if k = K_attribute then
             (case type_of_child h cs 1 of
                Inl e \<Rightarrow> hthrow e
              | Inr t \<Rightarrow> if t = K_notAllowed then replace_with_notAllowed p i h else hret () h)
           else if k = K_group \<or> k = K_interleave \<or> k = K_oneOrMore then
             (case some_notAllowed h cs of
                Inl e \<Rightarrow> hthrow e
              | Inr b \<Rightarrow> if b then replace_with_notAllowed p i h else hret () h)
           else if k = K_choice then
             (case type_of_child h cs 0 of
                Inl e \<Rightarrow> hthrow e
              | Inr t0 \<Rightarrow>
                  if t0 = K_notAllowed
                  then hret () (set_children p
                                  (splice (int i) 1 [at_index cs 1] (h_children (h ! p))) h)
                  else
                    (case type_of_child h cs 1 of
                       Inl e \<Rightarrow> hthrow e
                     | Inr t1 \<Rightarrow>
                         if t1 = K_notAllowed
                         then hret () (set_children p
                                         (splice (int i) 1 [at_index cs 0] (h_children (h ! p))) h)
                         else hret () h))
           else hret () h)
      | _ \<Rightarrow> hret () h)"

definition limitLocationsOfNotAllowed :: "nat \<Rightarrow> addr \<Rightarrow> heap \<Rightarrow> unit hres" where
  "limitLocationsOfNotAllowed fuel tree h =
     hbind (visitPostOrder fuel limitLocationsOfNotAllowed_visitor tree h)
       (\<lambda>u h1. removeUnreachableDefines fuel tree h1)"

subsection \<open>4.21: \<^verbatim>\<open>avoidEmptyInGroupSpots\<close>\<close>

definition avoidEmptyInGroupSpots_visitor ::
  "addr \<Rightarrow> nat option \<Rightarrow> addr option \<Rightarrow> heap \<Rightarrow> unit hres" where
  "avoidEmptyInGroupSpots_visitor node index parent h =
     (case (index, parent) of
        (Some i, Some p) \<Rightarrow>
          (let k = h_type (h ! node); cs = h_children (h ! node) in
           if k = K_group \<or> k = K_interleave then
             (case type_of_child h cs 0 of
                Inl e \<Rightarrow> hthrow e
              | Inr t0 \<Rightarrow>
                  if t0 = K_empty
                  then hret () (set_children p
                                  (splice (int i) 1 [at_index cs 1] (h_children (h ! p))) h)
                  else
                    (case type_of_child h cs 1 of
                       Inl e \<Rightarrow> hthrow e
                     | Inr t1 \<Rightarrow>
                         if t1 = K_empty
                         then hret () (set_children p
                                         (splice (int i) 1 [at_index cs 0] (h_children (h ! p))) h)
                         else hret () h))
           else if k = K_choice then
             (case type_of_child h cs 1 of
                Inl e \<Rightarrow> hthrow e
              | Inr t1 \<Rightarrow>
                  if t1 = K_empty
                  then hret () (set_children node (cs[1 := cs ! 0, 0 := cs ! 1]) h)
                  else hret () h)
           else if k = K_oneOrMore then
             (case type_of_child h cs 0 of
                Inl e \<Rightarrow> hthrow e
              | Inr t0 \<Rightarrow>
                  if t0 = K_empty
                  then (let (e, h1) = hb_empty h
                        in hret () (set_children p
                                      (splice (int i) 1 [Some e] (h_children (h1 ! p))) h1))
                  else hret () h)
           else hret () h)
      | _ \<Rightarrow> hret () h)"

definition avoidEmptyInGroupSpots :: "nat \<Rightarrow> addr \<Rightarrow> heap \<Rightarrow> unit hres" where
  "avoidEmptyInGroupSpots fuel tree h = visitPostOrder fuel avoidEmptyInGroupSpots_visitor tree h"

section \<open>The simple-form checker (simple-rngast.ts)\<close>

text \<open>
  The predicates read \<^verbatim>\<open>node.type\<close> first: on \<^verbatim>\<open>undefined\<close> that is a TypeError. \<open>and_then\<close> is
  \<^verbatim>\<open>&&\<close>, which does not evaluate its right operand when the left one is false.
\<close>

type_synonym check = "(error + bool) option"

definition and_then :: "check \<Rightarrow> check \<Rightarrow> check" where
  "and_then a b = (case a of Some (Inr True) \<Rightarrow> b | _ \<Rightarrow> a)"

fun isNonEmptyPattern :: "nat \<Rightarrow> heap \<Rightarrow> jsval \<Rightarrow> check" where
  "isNonEmptyPattern 0 h node = None"
| "isNonEmptyPattern (Suc fuel) h node =
     (case node of
        None \<Rightarrow> Some (Inl TypeError)
      | Some a \<Rightarrow>
          (let k = h_type (h ! a); cs = h_children (h ! a);
               isPattern = (\<lambda>c. case c of
                                None \<Rightarrow> Some (Inl TypeError)
                              | Some x \<Rightarrow> if h_type (h ! x) = K_empty then Some (Inr True)
                                          else isNonEmptyPattern fuel h c)
           in
           if k = K_text \<or> k = K_data \<or> k = K_value \<or> k = K_ref then Some (Inr True)
           else if k = K_attribute then
             and_then (Some (Inr (length cs = 2))) (isPattern (at_index cs 1))
           else if k = K_oneOrMore then
             and_then (Some (Inr (length cs = 1))) (isNonEmptyPattern fuel h (at_index cs 0))
           else if k = K_choice then
             and_then (Some (Inr (length cs = 2)))
               (and_then (isPattern (at_index cs 0)) (isNonEmptyPattern fuel h (at_index cs 1)))
           else if k = K_group \<or> k = K_interleave then
             and_then (Some (Inr (length cs = 2)))
               (and_then (isNonEmptyPattern fuel h (at_index cs 0))
                  (isNonEmptyPattern fuel h (at_index cs 1)))
           else Some (Inr False)))"

definition isPattern :: "nat \<Rightarrow> heap \<Rightarrow> jsval \<Rightarrow> check" where
  "isPattern fuel h node =
     (case node of
        None \<Rightarrow> Some (Inl TypeError)
      | Some a \<Rightarrow> if h_type (h ! a) = K_empty then Some (Inr True)
                  else isNonEmptyPattern fuel h node)"

definition isTop :: "nat \<Rightarrow> heap \<Rightarrow> jsval \<Rightarrow> check" where
  "isTop fuel h node =
     (case node of
        None \<Rightarrow> Some (Inl TypeError)
      | Some a \<Rightarrow> if h_type (h ! a) = K_notAllowed then Some (Inr True) else isPattern fuel h node)"

definition isElement :: "nat \<Rightarrow> heap \<Rightarrow> jsval \<Rightarrow> check" where
  "isElement fuel h node =
     (case node of
        None \<Rightarrow> Some (Inl TypeError)
      | Some a \<Rightarrow>
          and_then (Some (Inr (h_type (h ! a) = K_element \<and> length (h_children (h ! a)) = 2)))
            (isTop fuel h (at_index (h_children (h ! a)) 1)))"

definition isDefine :: "nat \<Rightarrow> heap \<Rightarrow> jsval \<Rightarrow> check" where
  "isDefine fuel h node =
     (case node of
        None \<Rightarrow> Some (Inl TypeError)
      | Some a \<Rightarrow>
          and_then (Some (Inr (h_type (h ! a) = K_define \<and> length (h_children (h ! a)) = 1)))
            (isElement fuel h (at_index (h_children (h ! a)) 0)))"

definition isStart :: "nat \<Rightarrow> heap \<Rightarrow> jsval \<Rightarrow> check" where
  "isStart fuel h node =
     (case node of
        None \<Rightarrow> Some (Inl TypeError)
      | Some a \<Rightarrow>
          and_then (Some (Inr (h_type (h ! a) = K_start \<and> length (h_children (h ! a)) = 1)))
            (isTop fuel h (at_index (h_children (h ! a)) 0)))"

fun every_isDefine :: "nat \<Rightarrow> heap \<Rightarrow> jsval list \<Rightarrow> check" where
  "every_isDefine fuel h [] = Some (Inr True)"
| "every_isDefine fuel h (ch # rest) = and_then (isDefine fuel h ch) (every_isDefine fuel h rest)"

definition isGrammar :: "nat \<Rightarrow> heap \<Rightarrow> jsval \<Rightarrow> check" where
  "isGrammar fuel h node =
     (case node of
        None \<Rightarrow> Some (Inl TypeError)
      | Some a \<Rightarrow>
          if h_type (h ! a) \<noteq> K_grammar then Some (Inr False)
          else if length (h_children (h ! a)) = 0 then Some (Inr False)
          else and_then (isStart fuel h (h_children (h ! a) ! 0))
                 (every_isDefine fuel h (tl (h_children (h ! a)))))"

definition isRoot :: "nat \<Rightarrow> heap \<Rightarrow> addr \<Rightarrow> check" where
  "isRoot fuel h tree =
     and_then (Some (Inr (length (h_children (h ! tree)) = 1)))
       (isGrammar fuel h (at_index (h_children (h ! tree)) 0))"

section \<open>\<^verbatim>\<open>simplifyRngAst\<close>\<close>

definition simplifyRngAst :: "nat \<Rightarrow> addr \<Rightarrow> heap \<Rightarrow> addr hres" where
  "simplifyRngAst fuel tree h =
     hbind (moveNameAttributeToChild fuel tree h) (\<lambda>u h1.
     hbind (controlChildren fuel tree h1) (\<lambda>u h2.
     hbind (replaceMixedOptionalAndZeroOrMore fuel tree h2) (\<lambda>u h3.
     hbind (eliminateCombineAttribute fuel tree h3) (\<lambda>u h4.
     hbind (ensureOnlyOneGrammarElement fuel tree h4) (\<lambda>u h5.
     hbind (canonicalDefineAndElement fuel tree h5) (\<lambda>u h6.
     hbind (limitLocationsOfNotAllowed fuel tree h6) (\<lambda>u h7.
     hbind (avoidEmptyInGroupSpots fuel tree h7) (\<lambda>u h8.
       case isRoot fuel h8 tree of
         None \<Rightarrow> None
       | Some (Inl e) \<Rightarrow> hthrow e
       | Some (Inr ok) \<Rightarrow>
           if ok then hret tree h8 else hthrow (Error ''Not valid as simplified RelaxNG'')))))))))"

subsection \<open>Trees in and out of the heap\<close>

fun alloc_tree :: "rng \<Rightarrow> heap \<Rightarrow> addr \<times> heap"
  and alloc_trees :: "rng list \<Rightarrow> heap \<Rightarrow> jsval list \<times> heap" where
  "alloc_tree (Node k n c cs) h =
     (let (as, h1) = alloc_trees cs h in (length h1, h1 @ [HNode k n c as]))"
| "alloc_trees [] h = ([], h)"
| "alloc_trees (t # ts) h =
     (let (a, h1) = alloc_tree t h; (as, h2) = alloc_trees ts h1 in (Some a # as, h2))"

fun read_tree :: "nat \<Rightarrow> heap \<Rightarrow> jsval \<Rightarrow> rng option"
  and read_trees :: "nat \<Rightarrow> heap \<Rightarrow> jsval list \<Rightarrow> rng list option" where
  "read_tree 0 h node = None"
| "read_tree (Suc fuel) h node =
     (case node of
        None \<Rightarrow> None
      | Some a \<Rightarrow>
          (case read_trees fuel h (h_children (h ! a)) of
             None \<Rightarrow> None
           | Some cs \<Rightarrow> Some (Node (h_type (h ! a)) (h_name (h ! a)) (h_combine (h ! a)) cs)))"
| "read_trees 0 h nodes = None"
| "read_trees (Suc fuel) h [] = Some []"
| "read_trees (Suc fuel) h (node # nodes) =
     (case read_tree fuel h node of
        None \<Rightarrow> None
      | Some t \<Rightarrow> (case read_trees fuel h nodes of None \<Rightarrow> None | Some ts \<Rightarrow> Some (t # ts)))"

text \<open>
  A pass on a freshly built tree (no node and no array shared), and the tree that is
  reachable from the root afterwards.
\<close>

definition on_tree :: "(addr \<Rightarrow> heap \<Rightarrow> 'a hres) \<Rightarrow> nat \<Rightarrow> rng \<Rightarrow> (error + rng) option" where
  "on_tree pass fuel t =
     (let (tree, h) = alloc_tree t [] in
      case pass tree h of
        None \<Rightarrow> None
      | Some (Inl e) \<Rightarrow> Some (Inl e)
      | Some (Inr (u, h')) \<Rightarrow> map_option Inr (read_tree fuel h' (Some tree)))"


section \<open>Classes of patterns for the validator\<close>

text \<open>
  The matcher has no check of progress: \<^verbatim>\<open>zeroOrMore\<close> and \<^verbatim>\<open>oneOrMore\<close> call the matcher
  again on their own pattern list, and \<^verbatim>\<open>ref\<close> replaces itself by the patterns of its define.
  The classes of this section describe the pattern lists on which that recursion is well
  founded; they are read off the branches of \<^verbatim>\<open>validateDetails\<close>.
\<close>

subsection \<open>Guarded pattern lists\<close>


subsection \<open>Pattern lists on which the recursion is well founded\<close>






subsection \<open>The size of a context\<close>

text \<open>
  The number of nodes and attributes in a context, the measure of the termination proof;
  \<open>below\<close>, \<open>shrinking\<close> and \<open>consuming\<close> bound the size of the context that a computation
  leaves. \<open>found_text\<close> and \<open>found_elem\<close> are the second arguments of \<^verbatim>\<open>expected.text\<close> and
  \<^verbatim>\<open>expected.elem\<close> in the branches of a mismatch.
\<close>

fun xsize :: "xnode \<Rightarrow> nat" where
  "xsize (XElement a n attrs cs) = Suc (length attrs + sum_list (map xsize cs))"
| "xsize (XText a v) = 1"
| "xsize (XRoot a cs) = Suc (sum_list (map xsize cs))"
| "xsize (XOther a k) = 1"

definition csize :: "context \<Rightarrow> nat" where
  "csize ctx = sum_list (map xsize (fst ctx)) + length (snd ctx)"

definition below :: "nat \<Rightarrow> vresult eff \<Rightarrow> bool" where
  "below N m \<longleftrightarrow> (\<forall>s r s'. m s = Some (Inr (r, s')) \<longrightarrow> csize (snd (snd r)) \<le> N)"


definition consuming :: "nat \<Rightarrow> vresult eff \<Rightarrow> bool" where
  "consuming N m \<longleftrightarrow> (\<forall>s r s'. m s = Some (Inr (r, s')) \<longrightarrow> fst r \<longrightarrow> csize (snd (snd r)) < N)"




section \<open>Properties of the validator\<close>

subsection \<open>Unfolding the matcher\<close>

lemma validateDetails_Nil: "validateDetails defs ctx [] st = Some (Inr (allGood ctx, st))"
  by (subst validateDetails.simps) (simp add: validateDetails_body_def ret_def)

lemma validateDetails_Cons:
  "validateDetails defs ctx (spec # rest) st =
     validateDetails_body (validateDetails defs) defs ctx (spec # rest) st"
  by (rule validateDetails.simps)

lemmas validator_defs =
  validateDetails_body_def ret_def throw_def bind_eff_def allGood_def invalid_def concat2_def
  elemCtx_def endValidationOnNode_def addProblems_def unexpected_def fallback_def chain_def
  chainIfOk_def lift_pure_def
















lemma bind_eff_Inr:
  "bind_eff m k st = Some (Inr x) \<Longrightarrow> \<exists>a s1. m st = Some (Inr (a, s1)) \<and> k a s1 = Some (Inr x)"
  by (auto simp: bind_eff_def split: Option.bind_splits sum.splits)

subsection \<open>The pattern \<^verbatim>\<open>empty\<close> and the remaining attributes\<close>

text \<open>
  Claim C10. On a context without children the single pattern \<^verbatim>\<open>empty\<close> returns ok with no
  problem, and the remaining context is \<^verbatim>\<open>allGood()\<close>'s default \<^verbatim>\<open>[[], {}]\<close>: the attributes
  of the input context are gone, whatever they were. Hence an element without children
  that is matched by \<^verbatim>\<open>elemNamed(n)\<close> (content \<^verbatim>\<open>empty\<close>) gets no annotation for its attributes:
  \<^verbatim>\<open>endValidationOnNode\<close> appends nothing to the element's problems, although \<^verbatim>\<open>unexpected\<close>
  would report every attribute of a context that still held them.
\<close>

theorem empty_discards_attributes:
  "validateDetails defs ([], attrs) [r_empty] st = Some (Inr ((True, [], ([], [])), st))
   \<and> validateDetails defs ([XElement a n attrs []], []) [r_elemNamed n []] st =
       Some (Inr ((True, [], ([], [])),
         st(a := Some (case st a of None \<Rightarrow> [] | Some ps \<Rightarrow> ps))))
   \<and> unexpected ([], attrs) = map (\<lambda>k. ''Unexpected attribute: '' @ k) (map fst attrs)"
  by (simp add: validateDetails_Cons validateDetails_Nil validator_defs builder_defs
      split: option.split)

subsection \<open>Element names\<close>

text \<open>
  Claim C5. Let the target be an XML element named \<open>X\<close> without children (with any
  attributes) that carries no annotation yet. \<^verbatim>\<open>validateNode\<close> against \<^verbatim>\<open>elemNamed(X)\<close> returns
  true and \<^verbatim>\<open>collectProblems\<close> finds nothing. Against \<^verbatim>\<open>elemNamed(Y)\<close> with \<open>Y \<noteq> X\<close> it returns
  false and the collected problems are exactly "Expected element Y but found X" and
  "Unexpected element: X", in this order.
\<close>

theorem validateNode_element_name:
  assumes "st a = None"
  shows "validateNode defs (XElement a X attrs []) (r_elemNamed X []) st =
           Some (Inr (True, st(a := Some [])))
       \<and> collectProblems (st(a := Some [])) True (XElement a X attrs []) = []
       \<and> (Y \<noteq> X \<longrightarrow>
            validateNode defs (XElement a X attrs []) (r_elemNamed Y []) st =
              Some (Inr (False, st(a := Some [''Expected element '' @ Y @ '' but found '' @ X,
                                             ''Unexpected element: '' @ X])))
          \<and> map snd (collectProblems
                (st(a := Some [''Expected element '' @ Y @ '' but found '' @ X,
                               ''Unexpected element: '' @ X])) True (XElement a X attrs []))
              = [''Expected element '' @ Y @ '' but found '' @ X, ''Unexpected element: '' @ X])"
  using assms
  by (simp add: validateNode_def validateDetails_Cons validateDetails_Nil validator_defs
      builder_defs expected_elem_def expected_unexpectedElem_def)

theorem validateNode_element_name_witness:
  "validateNode Map.empty (XElement 0 ''p'' [] []) (r_elemNamed ''p'' []) (\<lambda>_. None) =
           Some (Inr (True, (\<lambda>_. None)(0 := Some [])))
   \<and> validateNode Map.empty (XElement 0 ''p'' [] []) (r_elemNamed ''moo'' []) (\<lambda>_. None) =
              Some (Inr (False, (\<lambda>_. None)(0 := Some [''Expected element moo but found p'',
                                             ''Unexpected element: p''])))"
  using validateNode_element_name [of "\<lambda>_. None" 0 Map.empty "''p''" "[]" "''moo''"]
  by simp

subsection \<open>Choice\<close>

lemma fallback_from_nonempty: "opts \<noteq> [] \<Longrightarrow> fallback_from res opts st = fallback_from None opts st"
  by (cases opts) simp_all

text \<open>
  Claim C6. A \<^verbatim>\<open>choice\<close> tries its alternatives in order, each chained with the remaining
  patterns on the same context. With no alternative left the result is not ok and carries
  the single problem "Could not find matching choice". When the first alternative's chain
  returns ok, that is the result of the choice. When it returns not ok, its result (and
  with it its problems) is dropped, and the choice goes on with the other alternatives
  from the store the failed alternative left. By these three equations \<^verbatim>\<open>choice(A, B)\<close> is ok
  iff the chain of \<open>A\<close> or the chain of \<open>B\<close> is, and a choice whose alternatives all fail
  yields exactly one problem.
\<close>

theorem choice_backtracking:
  "validateDetails defs ctx (Node K_choice n c [] # rest) st =
     Some (Inr ((False, [''Could not find matching choice''], ctx), st))
   \<and> (chain ctx [\<lambda>ctx. validateDetails defs ctx [a], \<lambda>ctx. validateDetails defs ctx rest] st
          = Some (Inr (r, st')) \<and> fst r \<longrightarrow>
        validateDetails defs ctx (Node K_choice n c (a # alts) # rest) st = Some (Inr (r, st')))
   \<and> (chain ctx [\<lambda>ctx. validateDetails defs ctx [a], \<lambda>ctx. validateDetails defs ctx rest] st
          = Some (Inr (r, st')) \<and> \<not> fst r \<longrightarrow>
        validateDetails defs ctx (Node K_choice n c (a # alts) # rest) st =
        validateDetails defs ctx (Node K_choice n c alts # rest) st')"
proof (intro conjI impI)
  show "validateDetails defs ctx (Node K_choice n c [] # rest) st =
     Some (Inr ((False, [''Could not find matching choice''], ctx), st))"
    by (simp add: validateDetails_Cons validateDetails_body_def fallback_def ret_def invalid_def
        expected_noMatch_def)
next
  assume "chain ctx [\<lambda>ctx. validateDetails defs ctx [a], \<lambda>ctx. validateDetails defs ctx rest] st
          = Some (Inr (r, st')) \<and> fst r"
  then show "validateDetails defs ctx (Node K_choice n c (a # alts) # rest) st = Some (Inr (r, st'))"
    by (simp add: validateDetails_Cons [of _ _ "Node K_choice n c (a # alts)"]
        validateDetails_body_def fallback_def)
next
  assume a: "chain ctx [\<lambda>ctx. validateDetails defs ctx [a], \<lambda>ctx. validateDetails defs ctx rest] st
          = Some (Inr (r, st')) \<and> \<not> fst r"
  have "validateDetails defs ctx (Node K_choice n c (a # alts) # rest) st =
      fallback_from (Some r)
        (map (\<lambda>ch. chain ctx [\<lambda>ctx. validateDetails defs ctx [ch],
                               \<lambda>ctx. validateDetails defs ctx rest]) alts
         @ [ret (invalid ctx expected_noMatch)]) st'"
    using a
    by (simp add: validateDetails_Cons [of _ _ "Node K_choice n c (a # alts)"]
        validateDetails_body_def fallback_def)
  also have "\<dots> = fallback_from None
        (map (\<lambda>ch. chain ctx [\<lambda>ctx. validateDetails defs ctx [ch],
                               \<lambda>ctx. validateDetails defs ctx rest]) alts
         @ [ret (invalid ctx expected_noMatch)]) st'"
    by (rule fallback_from_nonempty) simp
  also have "\<dots> = validateDetails defs ctx (Node K_choice n c alts # rest) st'"
    by (simp add: validateDetails_Cons [of _ _ "Node K_choice n c alts"]
        validateDetails_body_def fallback_def)
  finally show "validateDetails defs ctx (Node K_choice n c (a # alts) # rest) st =
        validateDetails defs ctx (Node K_choice n c alts # rest) st'" .
qed

theorem choice_backtracking_witness:
  "chain ([], [(''bar'', AString ''something'')])
      [\<lambda>ctx. validateDetails Map.empty ctx [r_attrNamed ''foo'' (Some r_text)],
       \<lambda>ctx. validateDetails Map.empty ctx []] (\<lambda>_. None)
     = Some (Inr ((False, [''Expected attribute: foo''], ([], [(''bar'', AString ''something'')])),
          (\<lambda>_. None)))
   \<and> chain ([], [(''bar'', AString ''something'')])
      [\<lambda>ctx. validateDetails Map.empty ctx [r_attrNamed ''bar'' (Some r_text)],
       \<lambda>ctx. validateDetails Map.empty ctx []] (\<lambda>_. None)
     = Some (Inr ((True, [], ([], [])), (\<lambda>_. None)))
   \<and> validateDetails Map.empty ([], [(''bar'', AString ''something'')])
       [r_choice [r_attrNamed ''foo'' (Some r_text), r_attrNamed ''bar'' (Some r_text)]]
       (\<lambda>_. None)
     = Some (Inr ((True, [], ([], [])), (\<lambda>_. None)))
   \<and> validateDetails Map.empty ([], [])
       [r_choice [r_attrNamed ''foo'' (Some r_text), r_attrNamed ''bar'' (Some r_text)]]
       (\<lambda>_. None)
     = Some (Inr ((False, [''Could not find matching choice''], ([], [])), (\<lambda>_. None)))"
proof -
  let ?foo = "r_attrNamed ''foo'' (Some r_text)"
  let ?bar = "r_attrNamed ''bar'' (Some r_text)"
  let ?ctx = "([], [(''bar'', AString ''something'')]) :: context"
  let ?st = "(\<lambda>_. None) :: vstore"
  have foo: "chain ?ctx [\<lambda>ctx. validateDetails Map.empty ctx [?foo],
       \<lambda>ctx. validateDetails Map.empty ctx []] ?st
     = Some (Inr ((False, [''Expected attribute: foo''], ?ctx), ?st))"
    by (simp add: validateDetails_Cons validateDetails_Nil validator_defs builder_defs
        expected_attr_def)
  have bar: "chain ?ctx [\<lambda>ctx. validateDetails Map.empty ctx [?bar],
       \<lambda>ctx. validateDetails Map.empty ctx []] ?st
     = Some (Inr ((True, [], ([], [])), ?st))"
    by (simp add: validateDetails_Cons validateDetails_Nil validator_defs builder_defs
        validateAttribute.simps)
  have foo0: "chain ([], []) [\<lambda>ctx. validateDetails Map.empty ctx [?foo],
       \<lambda>ctx. validateDetails Map.empty ctx []] ?st
     = Some (Inr ((False, [''Expected attribute: foo''], ([], [])), ?st))"
    by (simp add: validateDetails_Cons validateDetails_Nil validator_defs builder_defs
        expected_attr_def)
  have bar0: "chain ([], []) [\<lambda>ctx. validateDetails Map.empty ctx [?bar],
       \<lambda>ctx. validateDetails Map.empty ctx []] ?st
     = Some (Inr ((False, [''Expected attribute: bar''], ([], [])), ?st))"
    by (simp add: validateDetails_Cons validateDetails_Nil validator_defs builder_defs
        expected_attr_def)
  note c = choice_backtracking [where defs = Map.empty and rest = "[]" and n = "[]" and c = None]
  have "validateDetails Map.empty ?ctx [r_choice [?foo, ?bar]] ?st
      = Some (Inr ((True, [], ([], [])), ?st))"
    using c [where ctx = ?ctx and a = ?foo and st = ?st and st' = ?st and alts = "[?bar]"
               and r = "(False, [''Expected attribute: foo''], ?ctx)"]
      c [where ctx = ?ctx and a = ?bar and st = ?st and st' = ?st and alts = "[]"
               and r = "(True, [], ([], []))"] foo bar
    unfolding r_choice_def by simp
  moreover have "validateDetails Map.empty ([], []) [r_choice [?foo, ?bar]] ?st
      = Some (Inr ((False, [''Could not find matching choice''], ([], [])), ?st))"
    using c [where ctx = "([], [])" and a = ?foo and st = ?st and st' = ?st and alts = "[?bar]"
               and r = "(False, [''Expected attribute: foo''], ([], []))"]
      c [where ctx = "([], [])" and a = ?bar and st = ?st and st' = ?st and alts = "[]"
               and r = "(False, [''Expected attribute: bar''], ([], []))"] foo0 bar0
    unfolding r_choice_def by simp
  ultimately show ?thesis using foo bar by simp
qed

subsection \<open>Termination\<close>




subsection \<open>The context never grows\<close>


lemma belowI: "(\<And>s r s'. m s = Some (Inr (r, s')) \<Longrightarrow> csize (snd (snd r)) \<le> N) \<Longrightarrow> below N m"
  unfolding below_def by blast













lemma below_const_Inl: "below N (\<lambda>st. Some (Inl e))"
  by (rule belowI) simp








subsection \<open>Guarded pattern lists consume\<close>

text \<open>
  On a guarded pattern list an ok result carries a strictly smaller context.
\<close>

lemma consumingD:
  "consuming N m \<Longrightarrow> m s = Some (Inr (r, s')) \<Longrightarrow> fst r \<Longrightarrow> csize (snd (snd r)) < N"
  unfolding consuming_def by blast

lemma consumingI:
  "(\<And>s r s'. m s = Some (Inr (r, s')) \<Longrightarrow> fst r \<Longrightarrow> csize (snd (snd r)) < N) \<Longrightarrow> consuming N m"
  unfolding consuming_def by blast

lemma consuming_below: "below M m \<Longrightarrow> M < N \<Longrightarrow> consuming N m"
  unfolding consuming_def below_def by (meson le_less_trans)

lemma consuming_mono: "consuming M m \<Longrightarrow> M \<le> N \<Longrightarrow> consuming N m"
  unfolding consuming_def by (meson less_le_trans)

lemma consuming_bind:
  assumes "\<And>a. consuming N (k a)"
  shows "consuming N (bind_eff m k)"
proof (rule consumingI)
  fix s r s'
  assume "bind_eff m k s = Some (Inr (r, s'))" and ok: "fst r"
  from bind_eff_Inr [OF this(1)] obtain a s1 where "k a s1 = Some (Inr (r, s'))" by blast
  from consumingD [OF assms this ok] show "csize (snd (snd r)) < N" .
qed

lemma consuming_with_store: "consuming N m \<Longrightarrow> consuming N (\<lambda>st. m (f st))"
  unfolding consuming_def by blast

lemma consuming_bind_concat:
  assumes "consuming N m"
  shows "consuming N (bind_eff m (\<lambda>r2. ret (concat2 r1 r2)))"
proof (rule consumingI)
  fix s r s'
  assume "bind_eff m (\<lambda>r2. ret (concat2 r1 r2)) s = Some (Inr (r, s'))" and ok: "fst r"
  from bind_eff_Inr [OF this(1)] obtain r2 where "m s = Some (Inr (r2, s'))" and "r = concat2 r1 r2"
    by (auto simp: ret_def)
  with consumingD [OF assms, of s r2 s'] ok show "csize (snd (snd r)) < N"
    by (simp add: concat2_def)
qed











subsection \<open>The matcher returns on productive pattern lists\<close>

















section \<open>Properties of the simplifier\<close>

subsection \<open>The table of defines\<close>

lemma hbind_returns:
  "hbind m k = Some (Inr x) \<Longrightarrow> \<exists>a h'. m = Some (Inr (a, h')) \<and> k a h' = Some (Inr x)"
  by (auto simp: hbind_def split: option.splits sum.splits)

lemma getMapOfDefines_throws: "getMapOfDefines h grammar = Inl TypeError"
  by (simp add: getMapOfDefines_def for_of_def split: option.split)

lemma removeUnreachableDefines_never_returns:
  "removeUnreachableDefines fuel tree h \<noteq> Some (Inr x)"
proof
  assume "removeUnreachableDefines fuel tree h = Some (Inr x)"
  then obtain g h1 where
    "(case getMapOfDefines h1 g of
        Inl e \<Rightarrow> hthrow e
      | Inr definesByName \<Rightarrow>
          hbind (visit fuel (\<lambda>k. True)
                   (removeUnreachableDefines_visitor g definesByName) [] tree h1)
            (\<lambda>reached. hret ())) = Some (Inr x)"
    unfolding removeUnreachableDefines_def by (blast dest: hbind_returns)
  then show False by (simp add: getMapOfDefines_throws hthrow_def)
qed

lemma canonicalDefineAndElement_never_returns:
  "canonicalDefineAndElement fuel tree h \<noteq> Some (Inr x)"
proof
  assume "canonicalDefineAndElement fuel tree h = Some (Inr x)"
  then obtain u h1 where "removeUnreachableDefines fuel tree h = Some (Inr (u, h1))"
    unfolding canonicalDefineAndElement_def by (blast dest: hbind_returns)
  then show False by (simp add: removeUnreachableDefines_never_returns)
qed

lemma simplifyRngAst_never_returns: "simplifyRngAst fuel tree h \<noteq> Some (Inr x)"
proof
  assume "simplifyRngAst fuel tree h = Some (Inr x)"
  then show False
    unfolding simplifyRngAst_def
    by (elim hbind_returns [elim_format] exE conjE)
       (simp add: canonicalDefineAndElement_never_returns)
qed

text \<open>
  Claim C1 says that \<^verbatim>\<open>simplifyRngAst\<close> returns on every grammar and that \<^verbatim>\<open>isRoot\<close> accepts the
  result. The code does not: its sixth pass begins with \<^verbatim>\<open>removeUnreachableDefines\<close>, which
  builds the table of defines with \<^verbatim>\<open>getMapOfDefines\<close>, and that throws a TypeError on every
  grammar. On \<^verbatim>\<open>grammar(start(elementNamed("p")))\<close> the first five passes succeed and the call
  ends in that TypeError; and for no tree, heap and fuel does \<^verbatim>\<open>simplifyRngAst\<close> return
  normally.
\<close>

theorem simplifyRngAst_throws:
  "on_tree (simplifyRngAst 30) 30 (r_root (r_grammar (r_start (r_elemNamed ''p'' [])) []))
     = Some (Inl TypeError)
   \<and> (\<forall>fuel tree h x. simplifyRngAst fuel tree h \<noteq> Some (Inr x))"
proof
  show "on_tree (simplifyRngAst 30) 30 (r_root (r_grammar (r_start (r_elemNamed ''p'' [])) []))
     = Some (Inl TypeError)"
    by code_simp
  show "\<forall>fuel tree h x. simplifyRngAst fuel tree h \<noteq> Some (Inr x)"
    by (simp add: simplifyRngAst_never_returns)
qed

text \<open>
  Claim C2 describes the reachability step: afterwards the top grammar holds the start and
  the reachable defines in visit order. In the code \<^verbatim>\<open>removeUnreachableDefines\<close> never gets to
  its traversal: on \<^verbatim>\<open>grammar(start(ref("a")), define("a", element(name("p"), empty)))\<close>, where
  the claim expects the grammar unchanged, it throws the TypeError of \<^verbatim>\<open>getMapOfDefines\<close>, and
  it returns normally on no input at all.
\<close>

theorem removeUnreachableDefines_throws:
  "on_tree (removeUnreachableDefines 30) 30
     (r_root (r_grammar (r_start (r_ref ''a'')) [r_define ''a'' [r_elem (r_name ''p'') []]]))
     = Some (Inl TypeError)
   \<and> (\<forall>fuel tree h x. removeUnreachableDefines fuel tree h \<noteq> Some (Inr x))"
proof
  show "on_tree (removeUnreachableDefines 30) 30
     (r_root (r_grammar (r_start (r_ref ''a'')) [r_define ''a'' [r_elem (r_name ''p'') []]]))
     = Some (Inl TypeError)"
    by code_simp
  show "\<forall>fuel tree h x. removeUnreachableDefines fuel tree h \<noteq> Some (Inr x)"
    by (simp add: removeUnreachableDefines_never_returns)
qed

text \<open>
  The traversal of \<^verbatim>\<open>removeUnreachableDefines\<close> with the table its comments intend (every
  define of the top grammar under its name; here \<open>b\<close> at address 5 and \<open>a\<close> at address 9, the
  top grammar at address 10): with \<open>start \<rightarrow> a \<rightarrow> b\<close> and the defines in the order \<open>b\<close>, \<open>a\<close>,
  moving \<open>a\<close> overwrites \<open>b\<close> (\<^verbatim>\<open>splice(newIndex, 1, defineToMove)\<close> deletes an entry), and
  moving \<open>b\<close>, which is no longer in the array, removes the last entry, \<open>a\<close>, before \<open>b\<close>
  is put back. The reachable define \<open>a\<close> is lost.
\<close>

lemma reachability_traversal_loses_define:
  "on_tree (\<lambda>tree h. visit 30 (\<lambda>k. True)
        (removeUnreachableDefines_visitor 10 [(''b'', 5), (''a'', 9)]) [] tree h) 30
     (r_root (r_grammar (r_start (r_ref ''a''))
        [r_define ''b'' [r_elem (r_name ''q'') []],
         r_define ''a'' [r_elem (r_name ''p'') [r_ref ''b'']]]))
     = Some (Inr (r_root (r_grammar (r_start (r_ref ''a''))
        [r_define ''b'' [r_elem (r_name ''q'') []]])))"
  by code_simp

subsection \<open>Combining starts\<close>

lemma length_sort_insert: "length (sort_insert h x ys) = Suc (length ys)"
  by (induction ys) simp_all

lemma set_sort_insert: "set (sort_insert h x ys) = insert x (set ys)"
  by (induction ys) auto

lemma length_sort_foldl:
  "length (foldl (\<lambda>sorted x. sort_insert h x sorted) acc items) = length acc + length items"
  by (induction items arbitrary: acc) (simp_all add: length_sort_insert)

lemma set_sort_foldl:
  "set (foldl (\<lambda>sorted x. sort_insert h x sorted) acc items) = set acc \<union> set items"
  by (induction items arbitrary: acc) (simp_all add: set_sort_insert)

lemma length_sort_by_combine: "length (sort_by_combine h items) = length items"
  by (simp add: sort_by_combine_def length_sort_foldl)

lemma set_sort_by_combine: "set (sort_by_combine h items) = set items"
  by (simp add: sort_by_combine_def set_sort_foldl)

text \<open>
  Claim C3 fails as stated: for two starts without \<^verbatim>\<open>combine\<close> the message names "start
  elements", the \<^verbatim>\<open>errorName\<close> that \<^verbatim>\<open>eliminateCombineAttribute\<close> passes to \<^verbatim>\<open>combine\<close>, not
  "starts"; and for two starts with different values the message is the uninterpolated
  template.
\<close>

theorem multiple_starts_message_differs:
  "on_tree (simplifyRngAst 30) 30
     (r_root (Node K_grammar [] None [r_start r_empty, r_start r_text]))
     = Some (Inl (Error ''Cannot have multiple start elements without specifying combine''))
   \<and> on_tree (simplifyRngAst 30) 30
     (r_root (Node K_grammar [] None
        [Node K_start [] (Some Choice) [r_empty], Node K_start [] (Some Interleave) [r_text]]))
     = Some (Inl (Error ''Cannot have multiple ${errorName} with different combine values''))"
  by code_simp

text \<open>
  What the visitor of \<^verbatim>\<open>eliminateCombineAttribute\<close> collects from a grammar whose children are
  all defined: its starts are the children of type \<^verbatim>\<open>start\<close>, in order. And the traversal
  hands a grammar that is the first child of the tree to the visitor before anything else
  can fail.
\<close>

lemma collect_grammar_content_starts:
  "\<exists>defs. collect_grammar_content h (map Some cs) starts definesByName =
     Inr (starts @ filter (\<lambda>a. h_type (h ! a) = K_start) cs, defs)"
proof (induction cs arbitrary: starts definesByName)
  case Nil
  show ?case by simp
next
  case (Cons a cs)
  from Cons [of "starts @ [a]" definesByName] Cons [of starts definesByName]
    Cons [of starts "push_define (h_name (h ! a)) a definesByName"]
  show ?case by auto
qed

lemma combine_without_combine:
  assumes "2 \<le> length items" and "list_all (\<lambda>p. h_combine (h ! p) = None) items"
  shows "combine items builder errorName h =
           Some (Inl (Error (''Cannot have multiple '' @ errorName @ '' without specifying combine'')))"
proof -
  from assms have "2 \<le> length (sort_by_combine h items)" by (simp add: length_sort_by_combine)
  then obtain p q rest where s: "sort_by_combine h items = p # q # rest"
    by (cases "sort_by_combine h items"; cases "tl (sort_by_combine h items)") auto
  then have "p \<in> set items" "q \<in> set items"
    using set_sort_by_combine [of h items] by auto
  with assms have "h_combine (h ! p) = None" "h_combine (h ! q) = None"
    by (auto simp: list_all_iff)
  with s show ?thesis
    by (simp add: combine_def combine_step_def hbind_def hthrow_def)
qed

lemma combine_different_combine:
  assumes "h_combine (h ! pa) = Some ca" and "h_combine (h ! pb) = Some cb" and "ca \<noteq> cb"
  shows "\<exists>msg. combine [pa, pb] builder errorName h = Some (Inl (Error msg))"
  using assms
  by (auto simp: combine_def sort_by_combine_def combine_step_def hbind_def hthrow_def)

lemma visitor_without_combine:
  assumes "h_children (h ! g) = map Some cs"
    and "2 \<le> length (filter (\<lambda>a. h_type (h ! a) = K_start) cs)"
    and "list_all (\<lambda>a. h_combine (h ! a) = None) (filter (\<lambda>a. h_type (h ! a) = K_start) cs)"
  shows "eliminateCombineAttribute_visitor v g index parent h =
      Some (Inl (Error ''Cannot have multiple start elements without specifying combine''))"
proof -
  from collect_grammar_content_starts [of h cs "[]" "[]"] obtain defs where
    "collect_grammar_content h (map Some cs) [] [] =
       Inr (filter (\<lambda>a. h_type (h ! a) = K_start) cs, defs)" by auto
  with assms(1,2) combine_without_combine [OF assms(2,3), where builder = hb_start and errorName = "''start elements''"]
  show ?thesis
    by (auto simp: eliminateCombineAttribute_visitor_def hbind_def)
qed

lemma visitor_different_combine:
  assumes "h_children (h ! g) = map Some cs"
    and "filter (\<lambda>a. h_type (h ! a) = K_start) cs = [pa, pb]"
    and "h_combine (h ! pa) = Some ca" and "h_combine (h ! pb) = Some cb" and "ca \<noteq> cb"
  shows "\<exists>msg. eliminateCombineAttribute_visitor v g index parent h = Some (Inl (Error msg))"
proof -
  from collect_grammar_content_starts [of h cs "[]" "[]"] assms(2) obtain defs where
    "collect_grammar_content h (map Some cs) [] [] = Inr ([pa, pb], defs)" by auto
  with assms(1) combine_different_combine [OF assms(3-5), where builder = hb_start and errorName = "''start elements''"]
  show ?thesis
    by (auto simp: eliminateCombineAttribute_visitor_def hbind_def)
qed

lemma pass_reaches_first_child:
  assumes "h_type (h ! tree) \<noteq> K_grammar" and "h_children (h ! tree) = Some g # others"
    and "h_type (h ! g) = K_grammar"
    and "eliminateCombineAttribute_visitor () g (Some 0) (Some tree) h = Some (Inl e)"
  shows "eliminateCombineAttribute (Suc (Suc (Suc fuel))) tree h = Some (Inl e)"
  using assms
  by (simp add: eliminateCombineAttribute_def visit_def visitParents_def hbind_def hret_def
      indexOf_def)

text \<open>
  Claim C3, amended. Let the pass \<^verbatim>\<open>eliminateCombineAttribute\<close> come to a grammar whose
  children are all defined. When the grammar has two or more \<^verbatim>\<open>start\<close> children and none of
  them has \<^verbatim>\<open>combine\<close>, the visitor of the pass throws an Error whose message is exactly
  "Cannot have multiple start elements without specifying combine"; when its \<^verbatim>\<open>start\<close>
  children are two nodes with different \<^verbatim>\<open>combine\<close> values, the visitor throws an Error. In
  both cases the pass itself, on a tree that is not a grammar and has that grammar as its
  first child (with a traversal bound of three levels or more), ends in the same
  exception.
\<close>

theorem eliminateCombineAttribute_starts_errors:
  "(h_children (h ! g) = map Some cs
      \<and> 2 \<le> length (filter (\<lambda>a. h_type (h ! a) = K_start) cs)
      \<and> list_all (\<lambda>a. h_combine (h ! a) = None) (filter (\<lambda>a. h_type (h ! a) = K_start) cs)
    \<longrightarrow>
      eliminateCombineAttribute_visitor v g index parent h =
        Some (Inl (Error ''Cannot have multiple start elements without specifying combine''))
      \<and> (h_type (h ! tree) \<noteq> K_grammar \<and> h_children (h ! tree) = Some g # others
             \<and> h_type (h ! g) = K_grammar \<and> 3 \<le> fuel \<longrightarrow>
           eliminateCombineAttribute fuel tree h =
             Some (Inl (Error ''Cannot have multiple start elements without specifying combine''))))
   \<and> (h_children (h ! g) = map Some cs
      \<and> filter (\<lambda>a. h_type (h ! a) = K_start) cs = [pa, pb]
      \<and> h_combine (h ! pa) = Some ca \<and> h_combine (h ! pb) = Some cb \<and> ca \<noteq> cb
    \<longrightarrow>
      (\<exists>msg. eliminateCombineAttribute_visitor v g index parent h = Some (Inl (Error msg)))
      \<and> (h_type (h ! tree) \<noteq> K_grammar \<and> h_children (h ! tree) = Some g # others
             \<and> h_type (h ! g) = K_grammar \<and> 3 \<le> fuel \<longrightarrow>
           (\<exists>msg. eliminateCombineAttribute fuel tree h = Some (Inl (Error msg)))))"
proof (intro conjI impI)
  assume a: "h_children (h ! g) = map Some cs
      \<and> 2 \<le> length (filter (\<lambda>a. h_type (h ! a) = K_start) cs)
      \<and> list_all (\<lambda>a. h_combine (h ! a) = None) (filter (\<lambda>a. h_type (h ! a) = K_start) cs)"
  then show "eliminateCombineAttribute_visitor v g index parent h =
        Some (Inl (Error ''Cannot have multiple start elements without specifying combine''))"
    by (simp add: visitor_without_combine)
  assume t: "h_type (h ! tree) \<noteq> K_grammar \<and> h_children (h ! tree) = Some g # others
             \<and> h_type (h ! g) = K_grammar \<and> 3 \<le> fuel"
  then obtain fuel' where f: "fuel = Suc (Suc (Suc fuel'))"
    by (metis Suc_le_D numeral_3_eq_3 Suc_le_mono)
  from a have "eliminateCombineAttribute_visitor () g (Some 0) (Some tree) h =
        Some (Inl (Error ''Cannot have multiple start elements without specifying combine''))"
    by (simp add: visitor_without_combine)
  with t show "eliminateCombineAttribute fuel tree h =
        Some (Inl (Error ''Cannot have multiple start elements without specifying combine''))"
    unfolding f by (simp add: pass_reaches_first_child)
next
  assume a: "h_children (h ! g) = map Some cs
      \<and> filter (\<lambda>a. h_type (h ! a) = K_start) cs = [pa, pb]
      \<and> h_combine (h ! pa) = Some ca \<and> h_combine (h ! pb) = Some cb \<and> ca \<noteq> cb"
  then show "\<exists>msg. eliminateCombineAttribute_visitor v g index parent h = Some (Inl (Error msg))"
    by (blast intro: visitor_different_combine)
  assume t: "h_type (h ! tree) \<noteq> K_grammar \<and> h_children (h ! tree) = Some g # others
             \<and> h_type (h ! g) = K_grammar \<and> 3 \<le> fuel"
  then obtain fuel' where f: "fuel = Suc (Suc (Suc fuel'))"
    by (metis Suc_le_D numeral_3_eq_3 Suc_le_mono)
  from a obtain msg where
    "eliminateCombineAttribute_visitor () g (Some 0) (Some tree) h = Some (Inl (Error msg))"
    by (blast dest: visitor_different_combine)
  with t have "eliminateCombineAttribute fuel tree h = Some (Inl (Error msg))"
    unfolding f by (simp add: pass_reaches_first_child)
  then show "\<exists>msg. eliminateCombineAttribute fuel tree h = Some (Inl (Error msg))" ..
qed

theorem eliminateCombineAttribute_starts_errors_witness:
  "eliminateCombineAttribute_visitor () 4 (Some 0) (Some 5)
        [HNode K_empty [] None [], HNode K_start [] None [Some 0],
         HNode K_text [] None [], HNode K_start [] None [Some 2],
         HNode K_grammar [] None [Some 1, Some 3], HNode K_root [] None [Some 4]]
      = Some (Inl (Error ''Cannot have multiple start elements without specifying combine''))
   \<and> eliminateCombineAttribute 30 5
        [HNode K_empty [] None [], HNode K_start [] None [Some 0],
         HNode K_text [] None [], HNode K_start [] None [Some 2],
         HNode K_grammar [] None [Some 1, Some 3], HNode K_root [] None [Some 4]]
      = Some (Inl (Error ''Cannot have multiple start elements without specifying combine''))
   \<and> (\<exists>msg. eliminateCombineAttribute_visitor () 4 (Some 0) (Some 5)
        [HNode K_empty [] None [], HNode K_start [] (Some Choice) [Some 0],
         HNode K_text [] None [], HNode K_start [] (Some Interleave) [Some 2],
         HNode K_grammar [] None [Some 1, Some 3], HNode K_root [] None [Some 4]]
      = Some (Inl (Error msg)))
   \<and> (\<exists>msg. eliminateCombineAttribute 30 5
        [HNode K_empty [] None [], HNode K_start [] (Some Choice) [Some 0],
         HNode K_text [] None [], HNode K_start [] (Some Interleave) [Some 2],
         HNode K_grammar [] None [Some 1, Some 3], HNode K_root [] None [Some 4]]
      = Some (Inl (Error msg)))"
  using eliminateCombineAttribute_starts_errors [where g = 4 and cs = "[1, 3]" and tree = 5
      and others = "[]" and fuel = 30 and v = "()" and index = "Some 0" and parent = "Some 5"
      and h = "[HNode K_empty [] None [], HNode K_start [] None [Some 0],
         HNode K_text [] None [], HNode K_start [] None [Some 2],
         HNode K_grammar [] None [Some 1, Some 3], HNode K_root [] None [Some 4]]",
      THEN conjunct1]
    eliminateCombineAttribute_starts_errors [where g = 4 and cs = "[1, 3]" and tree = 5
      and others = "[]" and fuel = 30 and v = "()" and index = "Some 0" and parent = "Some 5"
      and pa = 1 and pb = 3 and ca = Choice and cb = Interleave
      and h = "[HNode K_empty [] None [], HNode K_start [] (Some Choice) [Some 0],
         HNode K_text [] None [], HNode K_start [] (Some Interleave) [Some 2],
         HNode K_grammar [] None [Some 1, Some 3], HNode K_root [] None [Some 4]]",
      THEN conjunct2]
  by simp

subsection \<open>Scenario 5\<close>

text \<open>
  Claim C4 fails as stated: on the grammar of scenario 5 \<^verbatim>\<open>simplifyRngAst\<close> throws the
  TypeError of \<^verbatim>\<open>getMapOfDefines\<close>.
\<close>

theorem scenario5_throws:
  "on_tree (simplifyRngAst 30) 30
     (r_root (r_grammar (r_start (r_optional [r_ref ''a'']))
        [r_define ''a'' [r_elemNamed ''p'' []]]))
     = Some (Inl TypeError)"
  by code_simp

text \<open>
  Claim C4, amended. The first five passes turn
  \<^verbatim>\<open>grammar(start(optional(ref("a"))), define("a", elementNamed("p")))\<close> into
  \<^verbatim>\<open>grammar(start(choice(ref("a"), empty)), define("a", element(name("p"), empty)))\<close>. On that
  tree \<^verbatim>\<open>createDefinesForEachElement\<close> changes nothing: the element is already the child of
  the define \<open>a\<close>, so no define \<open>elem__1\<close> is created and the reference stays \<^verbatim>\<open>ref("a")\<close>. And
  \<^verbatim>\<open>avoidEmptyInGroupSpots\<close> swaps the children of the choice: \<^verbatim>\<open>empty\<close> first, \<^verbatim>\<open>ref("a")\<close>
  second, the define \<open>a\<close> keeping \<^verbatim>\<open>element(name("p"), empty)\<close> as its sole child.
\<close>

theorem scenario5_passes:
  "on_tree (\<lambda>tree h.
       hbind (moveNameAttributeToChild 30 tree h) (\<lambda>u h1.
       hbind (controlChildren 30 tree h1) (\<lambda>u h2.
       hbind (replaceMixedOptionalAndZeroOrMore 30 tree h2) (\<lambda>u h3.
       hbind (eliminateCombineAttribute 30 tree h3) (\<lambda>u h4.
       ensureOnlyOneGrammarElement 30 tree h4))))) 30
     (r_root (r_grammar (r_start (r_optional [r_ref ''a'']))
        [r_define ''a'' [r_elemNamed ''p'' []]]))
     = Some (Inr (r_root (r_grammar (r_start (r_choice [r_ref ''a'', r_empty]))
        [r_define ''a'' [r_elem (r_name ''p'') [r_empty]]])))
   \<and> on_tree (createDefinesForEachElement 30) 30
     (r_root (r_grammar (r_start (r_choice [r_ref ''a'', r_empty]))
        [r_define ''a'' [r_elem (r_name ''p'') [r_empty]]]))
     = Some (Inr (r_root (r_grammar (r_start (r_choice [r_ref ''a'', r_empty]))
        [r_define ''a'' [r_elem (r_name ''p'') [r_empty]]])))
   \<and> on_tree (avoidEmptyInGroupSpots 30) 30
     (r_root (r_grammar (r_start (r_choice [r_ref ''a'', r_empty]))
        [r_define ''a'' [r_elem (r_name ''p'') [r_empty]]]))
     = Some (Inr (r_root (r_grammar (r_start (r_choice [r_empty, r_ref ''a'']))
        [r_define ''a'' [r_elem (r_name ''p'') [r_empty]]])))"
  by code_simp

end
